theory Spec2Isabelle
  imports Complex_Main "HOL-Library.AList"
begin

section \<open>Data model of \<open>server.js\<close>\<close>

text \<open>
  The server keeps its state in module-level variables: \<open>gameState\<close> (players, player
  count, pills), \<open>playerScores\<close>, \<open>sessionTokens\<close>, \<open>dailyLeaderboard\<close> and
  \<open>allTimeLeaderboard\<close>. Every JavaScript \<open>Map\<close> is modelled as an association list in
  insertion order: \<open>map_of m k\<close> is \<open>m.get(k)\<close>, \<open>AList.update k v m\<close> is \<open>m.set(k, v)\<close>
  (an existing key keeps its place, a new key goes to the end), \<open>AList.delete k m\<close> is
  \<open>m.delete(k)\<close>, \<open>length m\<close> is \<open>m.size\<close> and \<open>map snd m\<close> is \<open>m.values()\<close>.

  \<open>Date.now()\<close> is an \<open>int\<close> (milliseconds) handed to each handler; the results of
  \<open>Math.random()\<close> are handed in as arguments as well. Coordinates are JavaScript numbers:
  a finite double is the real it denotes, a coordinate that is \<open>undefined\<close> is \<open>None\<close>.
  Scores are integers. A string is the list of its code units; the type \<open>char\<close> holds
  the code units 0 to 255.
\<close>

record player =
  pl_id :: string
  pl_x :: "real option"
  pl_y :: "real option"
  pl_health :: int
  pl_maxHealth :: int
  pl_color :: string
  pl_name :: string
  pl_angle :: real
  pl_direction :: real
  pl_weaponAngle :: real
  pl_kills :: int
  pl_score :: int
  pl_lastActivity :: int
  pl_lastMovementUpdate :: "int option"

record pill =
  pill_id :: string
  pill_x :: real
  pill_y :: real
  pill_points :: int
  pill_spawnTime :: int

record score_record =
  sr_name :: string
  sr_score :: int
  sr_lastSeen :: int

record token_data =
  tk_name :: string
  tk_score :: int
  tk_created :: int

record daily_entry =
  de_name :: string
  de_score :: int
  de_timestamp :: int

record alltime_entry =
  at_name :: string
  at_score :: int
  at_timestamp :: int
  at_date :: string

record daily_leaderboard =
  currentDay :: string
  topScores :: "(string \<times> daily_entry) list"
  resetTime :: int
  timeRemaining :: int

text \<open>The payload of a \<open>playerUpdate\<close> event; the one sent on connect has no score.\<close>

record player_update =
  pu_id :: string
  pu_x :: "real option"
  pu_y :: "real option"
  pu_health :: int
  pu_maxHealth :: int
  pu_color :: string
  pu_name :: string
  pu_direction :: real
  pu_weaponAngle :: real
  pu_score :: "int option"

text \<open>
  What the server sends: \<open>io.emit\<close> reaches every connection, \<open>socket.emit\<close> the
  handler's own connection, \<open>socket.broadcast.emit\<close> every connection but the handler's.
\<close>

datatype target = ToAll | ToSocket string | ToOthers string

datatype message =
    GameState "(string \<times> player) list" nat "(string \<times> pill) list"
              "daily_entry list" int string "alltime_entry list"
  | PlayerUpdate player_update
  | PlayerCountUpdate nat
  | PlayerLeft string
  | PlayerRespawned player
  | PillSpawned pill bool
  | PillCollected string string int int
  | DailyLeaderboardUpdate "daily_entry list" string
  | DailyLeaderboardReset string int
  | AllTimeLeaderboardUpdate "alltime_entry list"
  | TimeUpdate int
  | SessionToken string string int

text \<open>The three persisted documents, as last written (\<open>None\<close>: never written).\<close>

record files =
  file_playerScores :: "(string \<times> score_record) list option"
  file_dailyLeaderboard :: "(string \<times> (string \<times> daily_entry) list \<times> int) option"
  file_allTimeLeaderboard :: "alltime_entry list option"

record state =
  players :: "(string \<times> player) list"
  playerCount :: nat
  pills :: "(string \<times> pill) list"
  playerScores :: "(string \<times> score_record) list"
  sessionTokens :: "(string \<times> token_data) list"
  dailyLeaderboard :: daily_leaderboard
  allTimeLeaderboard :: "alltime_entry list"
  nextPlayerId :: nat
  outbox :: "(target \<times> message) list"
  disk :: files

text \<open>
  What the host's JavaScript engine computes is a parameter. Of \<open>Date\<close>, the part that
  depends on the time zone and locale: the date strings of an instant, and the local
  midnight that follows it (\<open>setDate(getDate() + 1); setHours(0, 0, 0, 0)\<close>). Of the
  arithmetic in IEEE doubles, the distance of lines 386 to 388: for the doubles
  \<open>playerX\<close>, \<open>playerY\<close>, \<open>pill.x\<close> and \<open>pill.y\<close>, in this order,
  \<open>doubleDistance\<close> is the double \<open>Math.sqrt(dx * dx + dy * dy)\<close> with
  \<open>dx = playerX - pill.x\<close> and \<open>dy = playerY - pill.y\<close>, each operation rounded, and
  \<open>None\<close> when that is \<open>Infinity\<close>.
\<close>

record js_host =
  toDateString :: "int \<Rightarrow> string"
  toLocaleDateString :: "int \<Rightarrow> string"
  nextMidnight :: "int \<Rightarrow> int"
  doubleDistance :: "real \<Rightarrow> real \<Rightarrow> real \<Rightarrow> real \<Rightarrow> real option"

datatype js_error = TypeError

definition emit :: "target \<Rightarrow> message \<Rightarrow> state \<Rightarrow> state" where
  "emit t m s = s\<lparr>outbox := outbox s @ [(t, m)]\<rparr>"

definition MAX_PILLS :: nat where "MAX_PILLS = 30"
definition PILL_SIZE :: real where "PILL_SIZE = 45"
definition PLAYER_RADIUS :: real where "PLAYER_RADIUS = 20"
definition TWENTY_FOUR_HOURS :: int where "TWENTY_FOUR_HOURS = 24 * 60 * 60 * 1000"

section \<open>Persistence\<close>

text \<open>
  \<open>savePlayerScores\<close>, \<open>saveDailyLeaderboard\<close> and \<open>saveAllTimeLeaderboard\<close> write the
  current value of their variable; the model records the document written.
\<close>

definition savePlayerScores :: "state \<Rightarrow> state" where
  "savePlayerScores s = s\<lparr>disk := (disk s)\<lparr>file_playerScores := Some (playerScores s)\<rparr>\<rparr>"

definition saveDailyLeaderboard :: "state \<Rightarrow> state" where
  "saveDailyLeaderboard s =
     s\<lparr>disk := (disk s)\<lparr>file_dailyLeaderboard :=
          Some (currentDay (dailyLeaderboard s), topScores (dailyLeaderboard s),
                resetTime (dailyLeaderboard s))\<rparr>\<rparr>"

definition saveAllTimeLeaderboard :: "state \<Rightarrow> state" where
  "saveAllTimeLeaderboard s =
     s\<lparr>disk := (disk s)\<lparr>file_allTimeLeaderboard := Some (allTimeLeaderboard s)\<rparr>\<rparr>"

section \<open>Session tokens\<close>

text \<open>
  \<open>generateSessionToken\<close>: \<open>'session_' + Date.now() + '_' + Math.random()...\<close>; the text
  after the prefix is the argument \<open>stamp\<close>.
\<close>

definition generateSessionToken :: "string \<Rightarrow> string" where
  "generateSessionToken stamp = ''session_'' @ stamp"

text \<open>\<open>cleanupExpiredTokens\<close>: the hourly sweep deletes every token older than 24 hours.\<close>

definition cleanupExpiredTokens :: "state \<Rightarrow> int \<Rightarrow> state" where
  "cleanupExpiredTokens s now =
     s\<lparr>sessionTokens :=
         filter (\<lambda>(token, data). \<not> (now - tk_created data > TWENTY_FOUR_HOURS))
           (sessionTokens s)\<rparr>"

section \<open>All-time leaderboard\<close>

text \<open>\<open>Array.prototype.findIndex\<close>: the index of the first element that satisfies \<open>P\<close>.\<close>

primrec findIndex :: "('a \<Rightarrow> bool) \<Rightarrow> 'a list \<Rightarrow> nat option" where
  "findIndex P [] = None"
| "findIndex P (x # xs) = (if P x then Some 0 else map_option Suc (findIndex P xs))"

text \<open>
  \<open>xs.sort((a, b) => b.score - a.score)\<close>: a stable sort, highest score first.
\<close>

definition sortByScoreDesc :: "('a \<Rightarrow> int) \<Rightarrow> 'a list \<Rightarrow> 'a list" where
  "sortByScoreDesc score xs = sort_key (\<lambda>e. - score e) xs"

text \<open>
  The array computed by \<open>updateAllTimeLeaderboard\<close> (lines 169 to 193): the entry of the
  player is replaced when the new score is higher, a player without an entry is appended,
  then the array is sorted and cut to three entries.
\<close>

definition updateAllTimeEntries ::
  "alltime_entry list \<Rightarrow> string \<Rightarrow> int \<Rightarrow> int \<Rightarrow> string \<Rightarrow> alltime_entry list" where
  "updateAllTimeEntries lb playerName score now date =
     (let newEntry = \<lparr>at_name = playerName, at_score = score, at_timestamp = now,
                       at_date = date\<rparr>;
          lb1 = (case findIndex (\<lambda>entry. at_name entry = playerName) lb of
                   Some existingIndex \<Rightarrow>
                     (if score > at_score (lb ! existingIndex)
                      then lb[existingIndex := newEntry] else lb)
                 | None \<Rightarrow> lb @ [newEntry])
      in take 3 (sortByScoreDesc at_score lb1))"

definition updateAllTimeLeaderboard :: "js_host \<Rightarrow> state \<Rightarrow> string \<Rightarrow> int \<Rightarrow> int \<Rightarrow> state" where
  "updateAllTimeLeaderboard D s playerName score now =
     (let s1 = s\<lparr>allTimeLeaderboard :=
                   updateAllTimeEntries (allTimeLeaderboard s) playerName score now
                     (toLocaleDateString D now)\<rparr>;
          s2 = saveAllTimeLeaderboard s1
      in emit ToAll (AllTimeLeaderboardUpdate (allTimeLeaderboard s2)) s2)"

section \<open>Daily leaderboard\<close>

definition updateTimeRemaining :: "state \<Rightarrow> int \<Rightarrow> state" where
  "updateTimeRemaining s now =
     s\<lparr>dailyLeaderboard := (dailyLeaderboard s)
         \<lparr>timeRemaining := max 0 (resetTime (dailyLeaderboard s) - now)\<rparr>\<rparr>"

text \<open>\<open>initializeDailyReset\<close> sets the reset target, then recomputes the remaining time.\<close>

definition initializeDailyReset :: "js_host \<Rightarrow> state \<Rightarrow> int \<Rightarrow> state" where
  "initializeDailyReset D s now =
     updateTimeRemaining
       (s\<lparr>dailyLeaderboard := (dailyLeaderboard s)\<lparr>resetTime := nextMidnight D now\<rparr>\<rparr>) now"

definition resetDailyLeaderboard :: "js_host \<Rightarrow> state \<Rightarrow> int \<Rightarrow> state" where
  "resetDailyLeaderboard D s now =
     (let s1 = s\<lparr>dailyLeaderboard := (dailyLeaderboard s)
                   \<lparr>topScores := [], currentDay := toDateString D now,
                    resetTime := nextMidnight D now\<rparr>\<rparr>;
          s2 = saveDailyLeaderboard s1
      in emit ToAll (DailyLeaderboardReset (currentDay (dailyLeaderboard s2))
                       (timeRemaining (dailyLeaderboard s2))) s2)"

definition updateDailyLeaderboard :: "state \<Rightarrow> string \<Rightarrow> string \<Rightarrow> int \<Rightarrow> int \<Rightarrow> state" where
  "updateDailyLeaderboard s playerId playerName score now =
     (let playerKey = playerName;
          s1 = s\<lparr>dailyLeaderboard := (dailyLeaderboard s)
                   \<lparr>topScores := AList.update playerKey
                        \<lparr>de_name = playerName, de_score = score, de_timestamp = now\<rparr>
                        (topScores (dailyLeaderboard s))\<rparr>\<rparr>;
          s2 = saveDailyLeaderboard s1;
          sortedScores = take 10 (sortByScoreDesc de_score
                           (map snd (topScores (dailyLeaderboard s2))))
      in emit ToAll (DailyLeaderboardUpdate sortedScores (currentDay (dailyLeaderboard s2))) s2)"

text \<open>The timer that fires every second (lines 294 to 307).\<close>

definition dailyTick :: "js_host \<Rightarrow> state \<Rightarrow> int \<Rightarrow> state" where
  "dailyTick D s now =
     (let s1 = updateTimeRemaining s now;
          s2 = (if timeRemaining (dailyLeaderboard s1) \<le> 0
                then resetDailyLeaderboard D s1 now else s1)
      in emit ToAll (TimeUpdate (timeRemaining (dailyLeaderboard s2))) s2)"

section \<open>Resource pool\<close>

text \<open>
  \<open>generatePill\<close>: the id is \<open>'pill_' + Date.now() + '_' + Math.random()\<close> (the text after
  the prefix is the argument \<open>stamp\<close>), the place is \<open>getRandomSpawnPoint()\<close>.
\<close>

definition generatePill :: "state \<Rightarrow> string \<Rightarrow> real \<Rightarrow> real \<Rightarrow> int \<Rightarrow> state" where
  "generatePill s stamp spawn_x spawn_y now =
     (if length (pills s) \<ge> MAX_PILLS then s
      else
        let pillId = ''pill_'' @ stamp;
            pill = \<lparr>pill_id = pillId, pill_x = spawn_x, pill_y = spawn_y, pill_points = 1,
                    pill_spawnTime = now\<rparr>;
            s1 = s\<lparr>pills := AList.update pillId pill (pills s)\<rparr>
        in emit ToAll (PillSpawned pill True) s1)"

text \<open>
  The test of \<open>checkPillCollection\<close> (lines 386 to 390). A coordinate that is
  \<open>undefined\<close> makes the distance \<open>NaN\<close>, and \<open>NaN <= r\<close> is false, as is
  \<open>Infinity <= r\<close>. The bound \<open>PLAYER_RADIUS + PILL_SIZE / 2\<close> is 42.5, in doubles as in
  the reals.
\<close>

definition inRange :: "js_host \<Rightarrow> real option \<Rightarrow> real option \<Rightarrow> pill \<Rightarrow> bool" where
  "inRange D playerX playerY pill =
     (case (playerX, playerY) of
        (Some px, Some py) \<Rightarrow>
          (case doubleDistance D px py (pill_x pill) (pill_y pill) of
             Some distance \<Rightarrow> distance \<le> PLAYER_RADIUS + PILL_SIZE / 2
           | None \<Rightarrow> False)
      | _ \<Rightarrow> False)"

text \<open>
  The body of the \<open>if\<close> in the loop (lines 391 to 417). \<open>player.score || 0\<close> is
  \<open>player.score\<close>, since \<open>0\<close> is the only falsy integer.
\<close>

definition collectPill ::
  "js_host \<Rightarrow> state \<Rightarrow> string \<Rightarrow> player \<Rightarrow> string \<Rightarrow> pill \<Rightarrow> int \<Rightarrow> state" where
  "collectPill D s playerId player pillId pill now =
     (let player' = player\<lparr>pl_score := pl_score player + pill_points pill\<rparr>;
          s1 = s\<lparr>players := AList.update playerId player' (players s),
                 pills := AList.delete pillId (pills s)\<rparr>;
          playerKey = pl_name player' @ ''_'' @ playerId;
          s2 = s1\<lparr>playerScores := AList.update playerKey
                   \<lparr>sr_name = pl_name player', sr_score = pl_score player', sr_lastSeen = now\<rparr>
                   (playerScores s1)\<rparr>;
          s3 = savePlayerScores s2;
          s4 = emit ToAll (PillCollected pillId playerId (pill_points pill) (pl_score player')) s3;
          s5 = updateDailyLeaderboard s4 playerId (pl_name player') (pl_score player') now
      in updateAllTimeLeaderboard D s5 (pl_name player') (pl_score player') now)"

text \<open>The \<open>for\<close> loop over \<open>gameState.pills.entries()\<close>; it ends at the first hit.\<close>

fun pillLoop ::
  "js_host \<Rightarrow> state \<Rightarrow> string \<Rightarrow> player \<Rightarrow> real option \<Rightarrow> real option \<Rightarrow> int \<Rightarrow>
   (string \<times> pill) list \<Rightarrow> state" where
  "pillLoop D s playerId player playerX playerY now [] = s"
| "pillLoop D s playerId player playerX playerY now ((pillId, pill) # rest) =
     (if inRange D playerX playerY pill
      then collectPill D s playerId player pillId pill now
      else pillLoop D s playerId player playerX playerY now rest)"

definition checkPillCollection ::
  "js_host \<Rightarrow> state \<Rightarrow> string \<Rightarrow> real option \<Rightarrow> real option \<Rightarrow> int \<Rightarrow> state" where
  "checkPillCollection D s playerId playerX playerY now =
     (case map_of (players s) playerId of
        None \<Rightarrow> s
      | Some player \<Rightarrow> pillLoop D s playerId player playerX playerY now (pills s))"

section \<open>Connection handlers\<close>

text \<open>The decimal text of a number, for \<open>`Player ${playerNumber}`\<close>.\<close>

fun decimal :: "nat \<Rightarrow> string" where
  "decimal n =
     (if n < 10 then [''0123456789'' ! n]
      else decimal (n div 10) @ [''0123456789'' ! (n mod 10)])"

declare decimal.simps [simp del]

definition playerUpdateOf :: "player \<Rightarrow> int option \<Rightarrow> player_update" where
  "playerUpdateOf p sc =
     \<lparr>pu_id = pl_id p, pu_x = pl_x p, pu_y = pl_y p, pu_health = pl_health p,
      pu_maxHealth = pl_maxHealth p, pu_color = pl_color p, pu_name = pl_name p,
      pu_direction = pl_direction p, pu_weaponAngle = pl_weaponAngle p, pu_score = sc\<rparr>"

text \<open>
  \<open>io.on('connection', ...)\<close>: the spawn point and the colour are the random choices of
  \<open>getRandomSpawnPoint()\<close> and \<open>getRandomColor()\<close>.
\<close>

definition connect :: "state \<Rightarrow> string \<Rightarrow> real \<Rightarrow> real \<Rightarrow> string \<Rightarrow> int \<Rightarrow> state" where
  "connect s sid spawn_x spawn_y color now =
     (let playerNumber = nextPlayerId s;
          newPlayer = \<lparr>pl_id = sid, pl_x = Some spawn_x, pl_y = Some spawn_y, pl_health = 100,
                        pl_maxHealth = 100, pl_color = color,
                        pl_name = ''Player '' @ decimal playerNumber, pl_angle = 0,
                        pl_direction = 1, pl_weaponAngle = 0, pl_kills = 0, pl_score = 0,
                        pl_lastActivity = now, pl_lastMovementUpdate = None\<rparr>;
          s1 = s\<lparr>nextPlayerId := playerNumber + 1,
                 players := AList.update sid newPlayer (players s)\<rparr>;
          s2 = s1\<lparr>playerCount := length (players s1)\<rparr>;
          s3 = emit (ToSocket sid)
                 (GameState (players s2) (playerCount s2) (pills s2)
                    (take 10 (sortByScoreDesc de_score (map snd (topScores (dailyLeaderboard s2)))))
                    (timeRemaining (dailyLeaderboard s2)) (currentDay (dailyLeaderboard s2))
                    (allTimeLeaderboard s2)) s2;
          s4 = emit ToAll (PlayerUpdate (playerUpdateOf newPlayer None)) s3
      in emit ToAll (PlayerCountUpdate (playerCount s4)) s4)"

text \<open>
  The payload of \<open>setUsername\<close>: a string (the old format), an object whose \<open>username\<close> and
  \<open>sessionToken\<close> may be missing, or \<open>null\<close>/\<open>undefined\<close>, on which \<open>data.username\<close>
  throws.
\<close>

datatype username_data =
    NameString string
  | NameObject "string option" "string option"
  | NameNull

text \<open>
  \<open>String.prototype.trim\<close> removes white space and line terminators at both ends. Among
  the code units 0 to 255 these are tab, line feed, vertical tab, form feed, carriage
  return, space and the no-break space U+00A0. \<open>substring(0, 15)\<close> keeps the first 15
  code units.
\<close>

definition isWhiteSpace :: "char \<Rightarrow> bool" where
  "isWhiteSpace c =
     (c \<in> {CHR 0x09, CHR 0x0A, CHR 0x0B, CHR 0x0C, CHR 0x0D, CHR 0x20, CHR 0xA0})"

definition trim :: "string \<Rightarrow> string" where
  "trim str = rev (dropWhile isWhiteSpace (rev (dropWhile isWhiteSpace str)))"

definition cleanUsername :: "string \<Rightarrow> string" where
  "cleanUsername username = take 15 (trim username)"

text \<open>
  Lines 518 to 533: the score a player starts with and the token store afterwards. A
  token that is missing or the empty string is falsy.
\<close>

definition restoreScore ::
  "(string \<times> token_data) list \<Rightarrow> string option \<Rightarrow> string \<Rightarrow> int \<times> (string \<times> token_data) list" where
  "restoreScore tokens sessionToken clean =
     (case sessionToken of
        None \<Rightarrow> (0, tokens)
      | Some tok \<Rightarrow>
          (if tok = [] then (0, tokens)
           else
             (case map_of tokens tok of
                None \<Rightarrow> (0, tokens)
              | Some tokenData \<Rightarrow>
                  (if tk_name tokenData = clean
                   then (tk_score tokenData, AList.delete tok tokens)
                   else (0, tokens)))))"

definition setUsernameBody ::
  "state \<Rightarrow> string \<Rightarrow> string option \<Rightarrow> string option \<Rightarrow> int \<Rightarrow> state" where
  "setUsernameBody s sid username sessionToken now =
     (case (map_of (players s) sid, username) of
        (Some player, Some uname) \<Rightarrow>
          (if uname \<noteq> [] \<and> length (trim uname) > 0 then
             let clean = cleanUsername uname;
                 (restoredScore, tokens') = restoreScore (sessionTokens s) sessionToken clean;
                 player' = player\<lparr>pl_name := clean, pl_score := restoredScore\<rparr>;
                 s1 = s\<lparr>players := AList.update sid player' (players s),
                        sessionTokens := tokens'\<rparr>;
                 playerKey = clean @ ''_'' @ sid;
                 s2 = s1\<lparr>playerScores := AList.update playerKey
                          \<lparr>sr_name = clean, sr_score = pl_score player', sr_lastSeen = now\<rparr>
                          (playerScores s1)\<rparr>;
                 s3 = savePlayerScores s2
             in emit ToAll (PlayerUpdate (playerUpdateOf player' (Some (pl_score player')))) s3
           else s)
      | _ \<Rightarrow> s)"

definition setUsername :: "state \<Rightarrow> string \<Rightarrow> username_data \<Rightarrow> int \<Rightarrow> js_error + state" where
  "setUsername s sid data now =
     (case data of
        NameString str \<Rightarrow> Inr (setUsernameBody s sid (Some str) None now)
      | NameObject username sessionToken \<Rightarrow> Inr (setUsernameBody s sid username sessionToken now)
      | NameNull \<Rightarrow> Inl TypeError)"

text \<open>
  The payload of \<open>move\<close>: an object in which every field may be missing; the payload
  \<open>null\<close>/\<open>undefined\<close> is \<open>None\<close>, and reading \<open>data.x\<close> of it throws.
\<close>

record move_data =
  md_x :: "real option"
  md_y :: "real option"
  md_direction :: "real option"
  md_weaponAngle :: "real option"

text \<open>\<open>player.lastMovementUpdate || 0\<close>: \<open>undefined\<close> and \<open>0\<close> both give \<open>0\<close>.\<close>

definition orZero :: "int option \<Rightarrow> int" where
  "orZero v = (case v of None \<Rightarrow> 0 | Some t \<Rightarrow> t)"

text \<open>The two guards of the \<open>move\<close> handler (lines 568 and 573).\<close>

definition moveAccepted :: "state \<Rightarrow> string \<Rightarrow> int \<Rightarrow> bool" where
  "moveAccepted s sid now =
     (case map_of (players s) sid of
        None \<Rightarrow> False
      | Some player \<Rightarrow>
          pl_health player > 0 \<and> now - orZero (pl_lastMovementUpdate player) \<ge> 16)"

definition moveBody :: "js_host \<Rightarrow> state \<Rightarrow> string \<Rightarrow> player \<Rightarrow> move_data \<Rightarrow> int \<Rightarrow> state" where
  "moveBody D s sid player data now =
     (let p1 = player\<lparr>pl_x := md_x data, pl_y := md_y data\<rparr>;
          p2 = (case md_direction data of None \<Rightarrow> p1 | Some d \<Rightarrow> p1\<lparr>pl_direction := d\<rparr>);
          p3 = (case md_weaponAngle data of None \<Rightarrow> p2 | Some w \<Rightarrow> p2\<lparr>pl_weaponAngle := w\<rparr>);
          p4 = p3\<lparr>pl_lastActivity := now, pl_lastMovementUpdate := Some now\<rparr>;
          s1 = s\<lparr>players := AList.update sid p4 (players s)\<rparr>;
          s2 = checkPillCollection D s1 sid (pl_x p4) (pl_y p4) now
      in (case map_of (players s2) sid of
            None \<Rightarrow> s2
          | Some p \<Rightarrow> emit (ToOthers sid) (PlayerUpdate (playerUpdateOf p (Some (pl_score p)))) s2))"

definition move :: "js_host \<Rightarrow> state \<Rightarrow> string \<Rightarrow> move_data option \<Rightarrow> int \<Rightarrow> js_error + state" where
  "move D s sid data now =
     (case map_of (players s) sid of
        None \<Rightarrow> Inr s
      | Some player \<Rightarrow>
          (if pl_health player > 0 \<and> now - orZero (pl_lastMovementUpdate player) \<ge> 16
           then (case data of
                   None \<Rightarrow> Inl TypeError
                 | Some d \<Rightarrow> Inr (moveBody D s sid player d now))
           else Inr s))"

text \<open>
  \<open>respawn\<close>: what the timer set by the handler does when it fires, 3000 ms later.
\<close>

definition respawnTimeout :: "state \<Rightarrow> string \<Rightarrow> real \<Rightarrow> real \<Rightarrow> state" where
  "respawnTimeout s sid spawn_x spawn_y =
     (case map_of (players s) sid of
        None \<Rightarrow> s
      | Some player \<Rightarrow>
          (let player' = player\<lparr>pl_x := Some spawn_x, pl_y := Some spawn_y,
                                 pl_health := pl_maxHealth player\<rparr>
           in emit ToAll (PlayerRespawned player')
                (s\<lparr>players := AList.update sid player' (players s)\<rparr>)))"

definition disconnect :: "state \<Rightarrow> string \<Rightarrow> string \<Rightarrow> int \<Rightarrow> state" where
  "disconnect s sid stamp now =
     (case map_of (players s) sid of
        None \<Rightarrow> s
      | Some player \<Rightarrow>
          (let s3 = (if pl_name player \<noteq> [] \<and> pl_score player > 0 then
                       let s1 = updateDailyLeaderboard s sid (pl_name player) (pl_score player) now;
                           sessionToken = generateSessionToken stamp;
                           s2 = s1\<lparr>sessionTokens := AList.update sessionToken
                                    \<lparr>tk_name = pl_name player, tk_score = pl_score player,
                                     tk_created = now\<rparr> (sessionTokens s1)\<rparr>
                       in emit (ToSocket sid)
                            (SessionToken sessionToken (pl_name player) (pl_score player)) s2
                     else s);
               s4 = emit ToAll (PlayerLeft sid) s3;
               s5 = s4\<lparr>players := AList.delete sid (players s4)\<rparr>;
               s6 = s5\<lparr>playerCount := length (players s5)\<rparr>
           in emit ToAll (PlayerCountUpdate (playerCount s6)) s6))"

section \<open>The server as a transition system\<close>

text \<open>
  One event is one unit of work of the single-threaded server: a client message, a
  connection opening or closing, or a timer firing.
\<close>

datatype event =
    Connect string real real string int
  | SetUsername string username_data int
  | Move string "move_data option" int
  | RespawnTimeout string real real
  | Disconnect string string int
  | GeneratePill string real real int
  | DailyTick int
  | CleanupTick int
  | SaveTick

fun step :: "js_host \<Rightarrow> state \<Rightarrow> event \<Rightarrow> js_error + state" where
  "step D s (Connect sid x y color now) = Inr (connect s sid x y color now)"
| "step D s (SetUsername sid data now) = setUsername s sid data now"
| "step D s (Move sid data now) = move D s sid data now"
| "step D s (RespawnTimeout sid x y) = Inr (respawnTimeout s sid x y)"
| "step D s (Disconnect sid stamp now) = Inr (disconnect s sid stamp now)"
| "step D s (GeneratePill stamp x y now) = Inr (generatePill s stamp x y now)"
| "step D s (DailyTick now) = Inr (dailyTick D s now)"
| "step D s (CleanupTick now) = Inr (cleanupExpiredTokens s now)"
| "step D s SaveTick = Inr (if length (playerScores s) > 0 then savePlayerScores s else s)"

text \<open>
  A run of the server. An exception that escapes a handler ends the process; the run
  stops in the state reached.
\<close>

fun run :: "js_host \<Rightarrow> state \<Rightarrow> event list \<Rightarrow> state" where
  "run D s [] = s"
| "run D s (e # es) = (case step D s e of Inl err \<Rightarrow> s | Inr s' \<Rightarrow> run D s' es)"

text \<open>The state after start-up when no file exists.\<close>

definition initialState :: "js_host \<Rightarrow> int \<Rightarrow> state" where
  "initialState D now =
     initializeDailyReset D
       \<lparr>players = [], playerCount = 0, pills = [], playerScores = [], sessionTokens = [],
        dailyLeaderboard = \<lparr>currentDay = toDateString D now, topScores = [], resetTime = 0,
                            timeRemaining = 0\<rparr>,
        allTimeLeaderboard = [], nextPlayerId = 1, outbox = [],
        disk = \<lparr>file_playerScores = None, file_dailyLeaderboard = None,
                file_allTimeLeaderboard = None\<rparr>\<rparr> now"

section \<open>Properties and example states\<close>

text \<open>
  What holds of the all-time leaderboard: at most three entries, scores in descending
  order (equal scores may follow each other), no name twice.
\<close>

definition allTimeOk :: "alltime_entry list \<Rightarrow> bool" where
  "allTimeOk lb =
     (length lb \<le> 3 \<and> sorted_wrt (\<lambda>a b. at_score a \<ge> at_score b) lb \<and>
      distinct (map at_name lb))"

text \<open>
  An example host for evaluation: its time zone is UTC and it writes a date as the number
  of the day since the epoch. Its distance is computed without rounding, which is what
  the doubles give when no operation rounds; in the examples below a pill is only ever
  tested from its own point, where every intermediate result is 0.
\<close>

definition exactDistance :: "real \<Rightarrow> real \<Rightarrow> real \<Rightarrow> real \<Rightarrow> real option" where
  "exactDistance playerX playerY pillX pillY =
     (let dx = playerX - pillX; dy = playerY - pillY in Some (sqrt (dx * dx + dy * dy)))"

definition utcDate :: js_host where
  "utcDate =
     \<lparr>toDateString = (\<lambda>t. ''day '' @ decimal (nat (t div 86400000))),
      toLocaleDateString = (\<lambda>t. ''day '' @ decimal (nat (t div 86400000))),
      nextMidnight = (\<lambda>t. (t div 86400000 + 1) * 86400000),
      doubleDistance = exactDistance\<rparr>"

text \<open>An example state whose pool is full: thirty pills on a line inside the map.\<close>

definition fullPool :: "(string \<times> pill) list" where
  "fullPool =
     map (\<lambda>i. (''pill_'' @ decimal (1000 + i) @ ''_0.5'',
               \<lparr>pill_id = ''pill_'' @ decimal (1000 + i) @ ''_0.5'', pill_x = 100 + real i,
                pill_y = 100, pill_points = 1, pill_spawnTime = 1000 + int i\<rparr>)) [0..<30]"

definition fullState :: state where
  "fullState = (initialState utcDate 0)\<lparr>pills := fullPool\<rparr>"

text \<open>
  An example run: Alice and Bob connect, name themselves, and each collects one pill.
\<close>

definition scenarioTie :: "event list" where
  "scenarioTie =
     [Connect ''a'' 100 100 ''#00d4ff'' 1000,
      SetUsername ''a'' (NameString ''Alice'') 2000,
      Connect ''b'' 200 200 ''#7c3aed'' 3000,
      SetUsername ''b'' (NameObject (Some ''Bob'') None) 4000,
      GeneratePill ''5000_0.1'' 500 500 5000,
      GeneratePill ''6000_0.2'' 900 900 6000,
      Move ''a'' (Some \<lparr>md_x = Some 500, md_y = Some 500, md_direction = None,
                         md_weaponAngle = None\<rparr>) 7000,
      Move ''b'' (Some \<lparr>md_x = Some 900, md_y = Some 900, md_direction = None,
                         md_weaponAngle = None\<rparr>) 8000]"

text \<open>
  More example runs. In \<open>played\<close> Alice has connected, named herself and collected one
  pill. In \<open>reconnected\<close> she has then disconnected, which mints a token at time 10000,
  and a new connection \<open>b\<close> has opened shortly after. In \<open>reconnectedLate\<close> the new
  connection opens more than 24 hours later, and the sweep has run once in between, at a
  time when the token was not yet older than 24 hours.
\<close>

definition scenarioPlay :: "event list" where
  "scenarioPlay =
     [Connect ''a'' 100 100 ''#00d4ff'' 1000,
      SetUsername ''a'' (NameString ''Alice'') 2000,
      GeneratePill ''5000_0.1'' 500 500 5000,
      Move ''a'' (Some \<lparr>md_x = Some 500, md_y = Some 500, md_direction = None,
                         md_weaponAngle = None\<rparr>) 7000]"

definition played :: state where
  "played = run utcDate (initialState utcDate 0) scenarioPlay"

definition reconnected :: state where
  "reconnected =
     run utcDate played
       [Disconnect ''a'' ''10000_abc'' 10000,
        Connect ''b'' 150 150 ''#7c3aed'' 20000]"

definition reconnectedLate :: state where
  "reconnectedLate =
     run utcDate played
       [Disconnect ''a'' ''10000_abc'' 10000,
        CleanupTick 86400000,
        Connect ''b'' 150 150 ''#7c3aed'' 88000000]"

text \<open>
  The times of the moves of connection \<open>sid\<close> that a run accepts, in the order in which
  they are processed.
\<close>

fun acceptedMoves :: "js_host \<Rightarrow> state \<Rightarrow> string \<Rightarrow> event list \<Rightarrow> int list" where
  "acceptedMoves D s sid [] = []"
| "acceptedMoves D s sid (e # es) =
     (case step D s e of
        Inl err \<Rightarrow> []
      | Inr s' \<Rightarrow>
          (case e of
             Move sid' data now \<Rightarrow> (if sid' = sid \<and> moveAccepted s sid now then [now] else [])
           | _ \<Rightarrow> []) @ acceptedMoves D s' sid es)"

text \<open>The player record written by an accepted move, before the collection check.\<close>

definition movedPlayer :: "player \<Rightarrow> move_data \<Rightarrow> int \<Rightarrow> player" where
  "movedPlayer p d now =
     (let p1 = p\<lparr>pl_x := md_x d, pl_y := md_y d\<rparr>;
          p2 = (case md_direction d of None \<Rightarrow> p1 | Some v \<Rightarrow> p1\<lparr>pl_direction := v\<rparr>);
          p3 = (case md_weaponAngle d of None \<Rightarrow> p2 | Some w \<Rightarrow> p2\<lparr>pl_weaponAngle := w\<rparr>)
      in p3\<lparr>pl_lastActivity := now, pl_lastMovementUpdate := Some now\<rparr>)"

text \<open>When the player of a connection last had a move accepted, if the player exists.\<close>

definition lastMove :: "state \<Rightarrow> string \<Rightarrow> int option option" where
  "lastMove s sid = map_option pl_lastMovementUpdate (map_of (players s) sid)"

text \<open>
  Example states and payloads: in \<open>twoPills\<close> Alice is connected and the pool holds two
  pills at the point (500, 500) and a third one elsewhere.
\<close>

definition twoPills :: state where
  "twoPills =
     run utcDate (initialState utcDate 0)
       [Connect ''a'' 100 100 ''#00d4ff'' 1000,
        SetUsername ''a'' (NameString ''Alice'') 2000,
        GeneratePill ''5000_0.1'' 500 500 5000,
        GeneratePill ''5500_0.2'' 500 500 5500,
        GeneratePill ''6000_0.3'' 900 900 6000]"

definition moveTo :: "real \<Rightarrow> real \<Rightarrow> move_data" where
  "moveTo x y = \<lparr>md_x = Some x, md_y = Some y, md_direction = None, md_weaponAngle = None\<rparr>"

definition moveWithoutX :: "real \<Rightarrow> move_data" where
  "moveWithoutX y = \<lparr>md_x = None, md_y = Some y, md_direction = None, md_weaponAngle = None\<rparr>"

section \<open>Basic facts\<close>

lemma emit_fields [simp]:
  "players (emit t m s) = players s"
  "playerCount (emit t m s) = playerCount s"
  "pills (emit t m s) = pills s"
  "playerScores (emit t m s) = playerScores s"
  "sessionTokens (emit t m s) = sessionTokens s"
  "dailyLeaderboard (emit t m s) = dailyLeaderboard s"
  "allTimeLeaderboard (emit t m s) = allTimeLeaderboard s"
  "nextPlayerId (emit t m s) = nextPlayerId s"
  "disk (emit t m s) = disk s"
  "outbox (emit t m s) = outbox s @ [(t, m)]"
  by (simp_all add: emit_def)

lemma savePlayerScores_fields [simp]:
  "players (savePlayerScores s) = players s"
  "playerCount (savePlayerScores s) = playerCount s"
  "pills (savePlayerScores s) = pills s"
  "playerScores (savePlayerScores s) = playerScores s"
  "sessionTokens (savePlayerScores s) = sessionTokens s"
  "dailyLeaderboard (savePlayerScores s) = dailyLeaderboard s"
  "allTimeLeaderboard (savePlayerScores s) = allTimeLeaderboard s"
  "nextPlayerId (savePlayerScores s) = nextPlayerId s"
  "outbox (savePlayerScores s) = outbox s"
  by (simp_all add: savePlayerScores_def)

lemma saveDailyLeaderboard_fields [simp]:
  "players (saveDailyLeaderboard s) = players s"
  "playerCount (saveDailyLeaderboard s) = playerCount s"
  "pills (saveDailyLeaderboard s) = pills s"
  "playerScores (saveDailyLeaderboard s) = playerScores s"
  "sessionTokens (saveDailyLeaderboard s) = sessionTokens s"
  "dailyLeaderboard (saveDailyLeaderboard s) = dailyLeaderboard s"
  "allTimeLeaderboard (saveDailyLeaderboard s) = allTimeLeaderboard s"
  "nextPlayerId (saveDailyLeaderboard s) = nextPlayerId s"
  "outbox (saveDailyLeaderboard s) = outbox s"
  by (simp_all add: saveDailyLeaderboard_def)

lemma saveAllTimeLeaderboard_fields [simp]:
  "players (saveAllTimeLeaderboard s) = players s"
  "playerCount (saveAllTimeLeaderboard s) = playerCount s"
  "pills (saveAllTimeLeaderboard s) = pills s"
  "playerScores (saveAllTimeLeaderboard s) = playerScores s"
  "sessionTokens (saveAllTimeLeaderboard s) = sessionTokens s"
  "dailyLeaderboard (saveAllTimeLeaderboard s) = dailyLeaderboard s"
  "allTimeLeaderboard (saveAllTimeLeaderboard s) = allTimeLeaderboard s"
  "nextPlayerId (saveAllTimeLeaderboard s) = nextPlayerId s"
  "outbox (saveAllTimeLeaderboard s) = outbox s"
  by (simp_all add: saveAllTimeLeaderboard_def)

lemma updateDailyLeaderboard_fields [simp]:
  "players (updateDailyLeaderboard s pid n sc now) = players s"
  "playerCount (updateDailyLeaderboard s pid n sc now) = playerCount s"
  "pills (updateDailyLeaderboard s pid n sc now) = pills s"
  "playerScores (updateDailyLeaderboard s pid n sc now) = playerScores s"
  "sessionTokens (updateDailyLeaderboard s pid n sc now) = sessionTokens s"
  "allTimeLeaderboard (updateDailyLeaderboard s pid n sc now) = allTimeLeaderboard s"
  "nextPlayerId (updateDailyLeaderboard s pid n sc now) = nextPlayerId s"
  by (simp_all add: updateDailyLeaderboard_def Let_def)

lemma updateAllTimeLeaderboard_fields [simp]:
  "players (updateAllTimeLeaderboard D s n sc now) = players s"
  "playerCount (updateAllTimeLeaderboard D s n sc now) = playerCount s"
  "pills (updateAllTimeLeaderboard D s n sc now) = pills s"
  "playerScores (updateAllTimeLeaderboard D s n sc now) = playerScores s"
  "sessionTokens (updateAllTimeLeaderboard D s n sc now) = sessionTokens s"
  "dailyLeaderboard (updateAllTimeLeaderboard D s n sc now) = dailyLeaderboard s"
  "nextPlayerId (updateAllTimeLeaderboard D s n sc now) = nextPlayerId s"
  "allTimeLeaderboard (updateAllTimeLeaderboard D s n sc now) =
     updateAllTimeEntries (allTimeLeaderboard s) n sc now (toLocaleDateString D now)"
  by (simp_all add: updateAllTimeLeaderboard_def Let_def)

lemma collectPill_fields [simp]:
  "players (collectPill D s pid p k pill now) =
     AList.update pid (p\<lparr>pl_score := pl_score p + pill_points pill\<rparr>) (players s)"
  "playerCount (collectPill D s pid p k pill now) = playerCount s"
  "pills (collectPill D s pid p k pill now) = AList.delete k (pills s)"
  "sessionTokens (collectPill D s pid p k pill now) = sessionTokens s"
  "nextPlayerId (collectPill D s pid p k pill now) = nextPlayerId s"
  "allTimeLeaderboard (collectPill D s pid p k pill now) =
     updateAllTimeEntries (allTimeLeaderboard s) (pl_name p)
       (pl_score p + pill_points pill) now (toLocaleDateString D now)"
  by (simp_all add: collectPill_def Let_def)


lemma findIndex_Some:
  "findIndex P xs = Some i \<Longrightarrow> i < length xs \<and> P (xs ! i) \<and> (\<forall>j<i. \<not> P (xs ! j))"
proof (induction xs arbitrary: i)
  case Nil
  then show ?case by simp
next
  case (Cons x xs)
  show ?case
  proof (cases "P x")
    case True
    with Cons.prems show ?thesis by simp
  next
    case False
    with Cons.prems obtain k where k: "findIndex P xs = Some k" "i = Suc k"
      by auto
    from Cons.IH [OF k(1)] False k(2) show ?thesis
      by (auto simp: nth_Cons split: nat.splits)
  qed
qed

lemma findIndex_None: "findIndex P xs = None \<longleftrightarrow> (\<forall>x\<in>set xs. \<not> P x)"
  by (induction xs) auto

lemma sorted_desc_sortByScoreDesc:
  "sorted_wrt (\<lambda>a b. f a \<ge> f b) (sortByScoreDesc f xs)"
proof -
  have "sorted (map (\<lambda>e. - f e) (sort_key (\<lambda>e. - f e) xs))"
    by (rule sorted_sort_key)
  then show ?thesis
    by (simp add: sortByScoreDesc_def sorted_map)
qed

lemma sortByScoreDesc_id:
  "sorted_wrt (\<lambda>a b. f a \<ge> f b) xs \<Longrightarrow> sortByScoreDesc f xs = xs"
  unfolding sortByScoreDesc_def
  by (rule sort_key_id_if_sorted) (simp add: sorted_map)

lemma set_sortByScoreDesc [simp]: "set (sortByScoreDesc f xs) = set xs"
  by (simp add: sortByScoreDesc_def)

lemma length_sortByScoreDesc [simp]: "length (sortByScoreDesc f xs) = length xs"
  by (simp add: sortByScoreDesc_def)

lemma distinct_map_sortByScoreDesc:
  "distinct (map g (sortByScoreDesc f xs)) = distinct (map g xs)"
  by (simp add: sortByScoreDesc_def distinct_map)

lemma names_after_replace:
  assumes "findIndex (\<lambda>entry. at_name entry = n) lb = Some i"
  shows "map at_name (lb[i := e\<lparr>at_name := n\<rparr>]) = map at_name lb"
proof -
  from findIndex_Some [OF assms] have "i < length lb" "at_name (lb ! i) = n" by auto
  then show ?thesis
    by (simp add: map_update list_update_same_conv)
qed

lemma updateAllTimeEntries_length: "length (updateAllTimeEntries lb n sc now d) \<le> 3"
  by (simp add: updateAllTimeEntries_def Let_def)

lemma updateAllTimeEntries_sorted:
  "sorted_wrt (\<lambda>a b. at_score a \<ge> at_score b) (updateAllTimeEntries lb n sc now d)"
  unfolding updateAllTimeEntries_def Let_def
  by (rule sorted_wrt_take) (rule sorted_desc_sortByScoreDesc)

lemma updateAllTimeEntries_distinct:
  assumes "distinct (map at_name lb)"
  shows "distinct (map at_name (updateAllTimeEntries lb n sc now d))"
proof -
  let ?new = "\<lparr>at_name = n, at_score = sc, at_timestamp = now, at_date = d\<rparr>"
  let ?lb1 = "case findIndex (\<lambda>entry. at_name entry = n) lb of
                Some i \<Rightarrow> (if sc > at_score (lb ! i) then lb[i := ?new] else lb)
              | None \<Rightarrow> lb @ [?new]"
  have "distinct (map at_name ?lb1)"
  proof (cases "findIndex (\<lambda>entry. at_name entry = n) lb")
    case None
    then have "n \<notin> set (map at_name lb)"
      by (auto simp: findIndex_None)
    with assms None show ?thesis by simp
  next
    case (Some i)
    from names_after_replace [OF Some, of ?new] assms Some show ?thesis
      by simp
  qed
  then have "distinct (map at_name (sortByScoreDesc at_score ?lb1))"
    by (simp add: distinct_map_sortByScoreDesc)
  then have "distinct (take 3 (map at_name (sortByScoreDesc at_score ?lb1)))"
    by (rule distinct_take)
  then show ?thesis
    by (simp add: updateAllTimeEntries_def Let_def take_map)
qed

lemma updateAllTimeEntries_ok:
  "allTimeOk lb \<Longrightarrow> allTimeOk (updateAllTimeEntries lb n sc now d)"
  by (simp add: allTimeOk_def updateAllTimeEntries_length updateAllTimeEntries_sorted
      updateAllTimeEntries_distinct)

lemma length_delete_le: "length (AList.delete k al) \<le> length al"
  by (simp add: AList.delete_eq)

lemma pills_pillLoop:
  "length (pills (pillLoop D s pid p px py now rest)) \<le> length (pills s)"
  by (induction rest) (auto simp: length_delete_le)

lemma length_pills_checkPillCollection:
  "length (pills (checkPillCollection D s pid px py now)) \<le> length (pills s)"
  by (simp add: checkPillCollection_def pills_pillLoop split: option.splits)

lemma allTime_pillLoop:
  "allTimeOk (allTimeLeaderboard s) \<Longrightarrow>
   allTimeOk (allTimeLeaderboard (pillLoop D s pid p px py now rest))"
  by (induction rest) (auto simp: updateAllTimeEntries_ok)

lemma sessionTokens_pillLoop [simp]:
  "sessionTokens (pillLoop D s pid p px py now rest) = sessionTokens s"
  by (induction rest) auto

lemma sessionTokens_checkPillCollection [simp]:
  "sessionTokens (checkPillCollection D s pid px py now) = sessionTokens s"
  by (simp add: checkPillCollection_def split: option.splits)

lemma allTime_checkPillCollection:
  "allTimeOk (allTimeLeaderboard s) \<Longrightarrow>
   allTimeOk (allTimeLeaderboard (checkPillCollection D s pid px py now))"
  by (simp add: checkPillCollection_def allTime_pillLoop split: option.splits)

lemma moveBody_pills:
  "length (pills (moveBody D s sid p d now)) \<le> length (pills s)"
proof -
  have "length (pills (checkPillCollection D s1 sid px py now)) \<le> length (pills s)"
    if "pills s1 = pills s" for s1 px py
    using length_pills_checkPillCollection [of D s1 sid px py now] that by simp
  then show ?thesis
    by (simp add: moveBody_def Let_def split: option.splits)
qed

lemma moveBody_allTime:
  "allTimeOk (allTimeLeaderboard s) \<Longrightarrow> allTimeOk (allTimeLeaderboard (moveBody D s sid p d now))"
proof -
  assume ok: "allTimeOk (allTimeLeaderboard s)"
  have "allTimeOk (allTimeLeaderboard (checkPillCollection D s1 sid px py now))"
    if "allTimeLeaderboard s1 = allTimeLeaderboard s" for s1 px py
    using allTime_checkPillCollection [of s1 D sid px py now] that ok by simp
  then show ?thesis
    by (simp add: moveBody_def Let_def split: option.splits)
qed

lemma move_pills:
  "move D s sid data now = Inr s' \<Longrightarrow> length (pills s') \<le> length (pills s)"
  using moveBody_pills
  by (auto simp: move_def split: option.splits if_splits)

lemma move_allTime:
  "move D s sid data now = Inr s' \<Longrightarrow> allTimeOk (allTimeLeaderboard s) \<Longrightarrow>
   allTimeOk (allTimeLeaderboard s')"
  using moveBody_allTime
  by (auto simp: move_def split: option.splits if_splits)

lemma setUsernameBody_fields [simp]:
  "pills (setUsernameBody s sid u t now) = pills s"
  "allTimeLeaderboard (setUsernameBody s sid u t now) = allTimeLeaderboard s"
  "dailyLeaderboard (setUsernameBody s sid u t now) = dailyLeaderboard s"
  by (simp_all add: setUsernameBody_def Let_def split: option.splits prod.splits)

lemma setUsername_fields:
  "setUsername s sid data now = Inr s' \<Longrightarrow>
   pills s' = pills s \<and> allTimeLeaderboard s' = allTimeLeaderboard s"
  by (auto simp: setUsername_def split: username_data.splits)

lemma connect_fields [simp]:
  "pills (connect s sid x y c now) = pills s"
  "allTimeLeaderboard (connect s sid x y c now) = allTimeLeaderboard s"
  "sessionTokens (connect s sid x y c now) = sessionTokens s"
  "dailyLeaderboard (connect s sid x y c now) = dailyLeaderboard s"
  by (simp_all add: connect_def Let_def)

lemma respawnTimeout_fields [simp]:
  "pills (respawnTimeout s sid x y) = pills s"
  "allTimeLeaderboard (respawnTimeout s sid x y) = allTimeLeaderboard s"
  "sessionTokens (respawnTimeout s sid x y) = sessionTokens s"
  "dailyLeaderboard (respawnTimeout s sid x y) = dailyLeaderboard s"
  by (simp_all add: respawnTimeout_def Let_def split: option.splits)

lemma disconnect_fields [simp]:
  "pills (disconnect s sid stamp now) = pills s"
  "allTimeLeaderboard (disconnect s sid stamp now) = allTimeLeaderboard s"
  by (simp_all add: disconnect_def Let_def split: option.splits)

lemma dailyTick_fields [simp]:
  "pills (dailyTick D s now) = pills s"
  "allTimeLeaderboard (dailyTick D s now) = allTimeLeaderboard s"
  "sessionTokens (dailyTick D s now) = sessionTokens s"
  "players (dailyTick D s now) = players s"
  by (simp_all add: dailyTick_def resetDailyLeaderboard_def updateTimeRemaining_def Let_def)

lemma cleanupExpiredTokens_fields [simp]:
  "pills (cleanupExpiredTokens s now) = pills s"
  "allTimeLeaderboard (cleanupExpiredTokens s now) = allTimeLeaderboard s"
  "players (cleanupExpiredTokens s now) = players s"
  "dailyLeaderboard (cleanupExpiredTokens s now) = dailyLeaderboard s"
  by (simp_all add: cleanupExpiredTokens_def)

lemma generatePill_fields [simp]:
  "allTimeLeaderboard (generatePill s stamp x y now) = allTimeLeaderboard s"
  "sessionTokens (generatePill s stamp x y now) = sessionTokens s"
  "players (generatePill s stamp x y now) = players s"
  "dailyLeaderboard (generatePill s stamp x y now) = dailyLeaderboard s"
  by (simp_all add: generatePill_def Let_def)

lemma length_update_le: "length (AList.update k v al) \<le> Suc (length al)"
  by (induction al) auto

lemma generatePill_bound:
  assumes "length (pills s) \<le> MAX_PILLS"
  shows "length (pills (generatePill s stamp x y now)) \<le> MAX_PILLS"
proof (cases "length (pills s) \<ge> MAX_PILLS")
  case True
  with assms show ?thesis by (simp add: generatePill_def)
next
  case False
  then have "Suc (length (pills s)) \<le> MAX_PILLS" by simp
  moreover have "length (pills (generatePill s stamp x y now)) \<le> Suc (length (pills s))"
    using False by (simp add: generatePill_def Let_def length_update_le)
  ultimately show ?thesis by (rule order_trans [rotated])
qed

lemma step_pills_bound:
  "step D s e = Inr s' \<Longrightarrow> length (pills s) \<le> MAX_PILLS \<Longrightarrow> length (pills s') \<le> MAX_PILLS"
proof (cases e)
  case (Move sid data now)
  assume "step D s e = Inr s'" "length (pills s) \<le> MAX_PILLS"
  with Move move_pills [of D s sid data now s'] show ?thesis by simp
next
  case (SetUsername sid data now)
  assume "step D s e = Inr s'" "length (pills s) \<le> MAX_PILLS"
  with SetUsername setUsername_fields [of s sid data now s'] show ?thesis by simp
next
  case (GeneratePill stamp x y now)
  assume "step D s e = Inr s'" "length (pills s) \<le> MAX_PILLS"
  with GeneratePill generatePill_bound [of s stamp x y now] show ?thesis by auto
qed auto

lemma step_pills_other:
  "step D s e = Inr s' \<Longrightarrow> \<forall>stamp x y now. e \<noteq> GeneratePill stamp x y now \<Longrightarrow>
   length (pills s') \<le> length (pills s)"
proof (cases e)
  case (Move sid data now)
  assume "step D s e = Inr s'"
  with Move move_pills [of D s sid data now s'] show ?thesis by simp
next
  case (SetUsername sid data now)
  assume "step D s e = Inr s'"
  with SetUsername setUsername_fields [of s sid data now s'] show ?thesis by simp
qed auto

lemma run_pills_bound:
  "length (pills s) \<le> MAX_PILLS \<Longrightarrow> length (pills (run D s evs)) \<le> MAX_PILLS"
proof (induction evs arbitrary: s)
  case Nil
  then show ?case by simp
next
  case (Cons e evs)
  show ?case
  proof (cases "step D s e")
    case (Inl err)
    with Cons.prems show ?thesis by simp
  next
    case (Inr s')
    with Cons.prems have "length (pills s') \<le> MAX_PILLS"
      by (simp add: step_pills_bound)
    with Cons.IH Inr show ?thesis by simp
  qed
qed

section \<open>The resource pool is bounded\<close>

text \<open>
  Claim C4. The pool never holds more than 30 pills: \<open>generatePill\<close> changes nothing
  when the pool already holds 30, no other operation makes the pool larger, and so the
  bound is kept by every run of the server, from any state that satisfies it and in
  particular from the initial state.
\<close>

theorem pool_size_bounded:
  "(length (pills s) \<ge> 30 \<longrightarrow> generatePill s stamp x y now = s) \<and>
   (\<forall>e s'. step D s e = Inr s' \<and> (\<forall>stamp x y now. e \<noteq> GeneratePill stamp x y now)
      \<longrightarrow> length (pills s') \<le> length (pills s)) \<and>
   (length (pills s) \<le> 30 \<longrightarrow> length (pills (run D s evs)) \<le> 30) \<and>
   length (pills (run D (initialState D t0) evs)) \<le> 30"
proof -
  have a: "length (pills s) \<ge> 30 \<longrightarrow> generatePill s stamp x y now = s"
    by (simp add: generatePill_def MAX_PILLS_def)
  have b: "\<forall>e s'. step D s e = Inr s' \<and> (\<forall>stamp x y now. e \<noteq> GeneratePill stamp x y now)
      \<longrightarrow> length (pills s') \<le> length (pills s)"
    using step_pills_other by blast
  have c: "length (pills s) \<le> 30 \<longrightarrow> length (pills (run D s evs)) \<le> 30"
    using run_pills_bound [of s D evs] by (simp add: MAX_PILLS_def)
  have "length (pills (initialState D t0)) \<le> MAX_PILLS"
    by (simp add: initialState_def initializeDailyReset_def updateTimeRemaining_def)
  then have d: "length (pills (run D (initialState D t0) evs)) \<le> 30"
    using run_pills_bound [of "initialState D t0" D evs] by (simp add: MAX_PILLS_def)
  from a b c d show ?thesis by blast
qed

lemma pills_fullState: "pills fullState = fullPool"
  by (simp add: fullState_def)

lemma length_fullPool: "length fullPool = 30"
  by (simp add: fullPool_def)

theorem pool_size_bounded_witness:
  "length (pills fullState) \<ge> 30 \<and>
   generatePill fullState ''100_0.5'' 700 900 100 = fullState \<and>
   length (pills (connect fullState ''a'' 100 200 ''#ef4444'' 5)) \<le> length (pills fullState) \<and>
   length (pills fullState) \<le> 30 \<and>
   length (pills (run utcDate fullState [GeneratePill ''100_0.5'' 700 900 100])) \<le> 30"
proof -
  have full: "length (pills fullState) = 30"
    by (simp add: pills_fullState length_fullPool)
  have st: "step utcDate fullState (Connect ''a'' 100 200 ''#ef4444'' 5) =
              Inr (connect fullState ''a'' 100 200 ''#ef4444'' 5)"
    by simp
  from pool_size_bounded [of fullState "''100_0.5''" 700 900 100 utcDate "[GeneratePill ''100_0.5'' 700 900 100]" 0]
  show ?thesis using full st by auto
qed

lemma inRange_iff:
  "doubleDistance D = exactDistance \<Longrightarrow>
   inRange D (Some px) (Some py) pill \<longleftrightarrow>
   (px - pill_x pill) * (px - pill_x pill) + (py - pill_y pill) * (py - pill_y pill) \<le> (85 / 2)\<^sup>2"
proof -
  have "sqrt a \<le> 85 / 2 \<longleftrightarrow> a \<le> (85 / 2)\<^sup>2" for a :: real
    using real_sqrt_le_iff [of a "(85 / 2)\<^sup>2"] by simp
  then show "doubleDistance D = exactDistance \<Longrightarrow> ?thesis"
    by (simp add: inRange_def exactDistance_def Let_def PLAYER_RADIUS_def PILL_SIZE_def)
qed

lemma find_findIndex_Some:
  "findIndex P xs = Some i \<Longrightarrow> find P xs = Some (xs ! i)"
  by (induction xs arbitrary: i) (auto split: if_splits)

lemma find_findIndex_None: "findIndex P xs = None \<longleftrightarrow> find P xs = None"
  by (induction xs) auto

lemma replace_by_name:
  assumes "distinct (map at_name lb)" "i < length lb" "at_name (lb ! i) = n"
  shows "lb[i := e] = map (\<lambda>x. if at_name x = n then e else x) lb"
proof (rule nth_equalityI)
  show "length (lb[i := e]) = length (map (\<lambda>x. if at_name x = n then e else x) lb)"
    by simp
next
  fix j
  assume "j < length (lb[i := e])"
  then have j: "j < length lb" by simp
  show "lb[i := e] ! j = map (\<lambda>x. if at_name x = n then e else x) lb ! j"
  proof (cases "j = i")
    case True
    with assms j show ?thesis by simp
  next
    case False
    have "map at_name lb ! j \<noteq> map at_name lb ! i"
      using assms(1,2) j False by (simp add: nth_eq_iff_index_eq del: nth_map)
    with assms j have "at_name (lb ! j) \<noteq> n" by simp
    with False j show ?thesis by simp
  qed
qed

lemma take_3_id: "length xs \<le> 3 \<Longrightarrow> take 3 xs = xs"
  by simp


lemma step_allTime:
  "step D s e = Inr s' \<Longrightarrow> allTimeOk (allTimeLeaderboard s) \<Longrightarrow>
   allTimeOk (allTimeLeaderboard s')"
proof (cases e)
  case (Move sid data now)
  assume "step D s e = Inr s'" "allTimeOk (allTimeLeaderboard s)"
  with Move move_allTime [of D s sid data now s'] show ?thesis by simp
next
  case (SetUsername sid data now)
  assume "step D s e = Inr s'" "allTimeOk (allTimeLeaderboard s)"
  with SetUsername setUsername_fields [of s sid data now s'] show ?thesis by simp
qed auto

lemma run_allTime:
  "allTimeOk (allTimeLeaderboard s) \<Longrightarrow> allTimeOk (allTimeLeaderboard (run D s evs))"
proof (induction evs arbitrary: s)
  case Nil
  then show ?case by simp
next
  case (Cons e evs)
  show ?case
  proof (cases "step D s e")
    case (Inl err)
    with Cons.prems show ?thesis by simp
  next
    case (Inr s')
    with Cons.prems have "allTimeOk (allTimeLeaderboard s')"
      by (simp add: step_allTime)
    with Cons.IH Inr show ?thesis by simp
  qed
qed

lemma allTimeLeaderboard_initialState: "allTimeLeaderboard (initialState D t0) = []"
  by (simp add: initialState_def initializeDailyReset_def updateTimeRemaining_def)

lemmas scenario_simps =
  initialState_def initializeDailyReset_def updateTimeRemaining_def
  utcDate_def connect_def Let_def setUsername_def setUsernameBody_def cleanUsername_def
  trim_def isWhiteSpace_def restoreScore_def generatePill_def MAX_PILLS_def move_def
  moveBody_def orZero_def checkPillCollection_def inRange_iff collectPill_def
  updateAllTimeEntries_def sortByScoreDesc_def emit_def savePlayerScores_def
  playerUpdateOf_def decimal.simps

section \<open>The all-time leaderboard\<close>

text \<open>
  Claim C6, as amended. The all-time leaderboard has at most three entries, its scores
  descend (two names may hold the same score, so not strictly) and no name occurs twice:
  this holds in the initial state, every event of the server keeps it, and one update
  keeps it.
\<close>

theorem alltime_leaderboard_invariant:
  "(allTimeOk (allTimeLeaderboard s) \<longrightarrow> allTimeOk (allTimeLeaderboard (run D s evs))) \<and>
   allTimeOk (allTimeLeaderboard (run D (initialState D t0) evs)) \<and>
   (allTimeOk lb \<longrightarrow> allTimeOk (updateAllTimeEntries lb n sc now d))"
proof -
  have "allTimeOk (allTimeLeaderboard (initialState D t0))"
    by (simp add: allTimeLeaderboard_initialState allTimeOk_def)
  then have "allTimeOk (allTimeLeaderboard (run D (initialState D t0) evs))"
    by (rule run_allTime)
  then show ?thesis
    by (simp add: run_allTime updateAllTimeEntries_ok)
qed

theorem alltime_leaderboard_invariant_witness:
  "allTimeOk (allTimeLeaderboard (initialState utcDate 0)) \<and>
   allTimeOk (allTimeLeaderboard (run utcDate (initialState utcDate 0) scenarioTie)) \<and>
   allTimeOk [\<lparr>at_name = ''Alice'', at_score = 5, at_timestamp = 10, at_date = ''day 0''\<rparr>] \<and>
   allTimeOk (updateAllTimeEntries
      [\<lparr>at_name = ''Alice'', at_score = 5, at_timestamp = 10, at_date = ''day 0''\<rparr>]
      ''Bob'' 5 20 ''day 0'')"
proof -
  have a: "allTimeOk (allTimeLeaderboard (initialState utcDate 0))"
    by (simp add: allTimeLeaderboard_initialState allTimeOk_def)
  have b: "allTimeOk [\<lparr>at_name = ''Alice'', at_score = 5, at_timestamp = 10, at_date = ''day 0''\<rparr>]"
    by (simp add: allTimeOk_def)
  from alltime_leaderboard_invariant [of "initialState utcDate 0" utcDate scenarioTie 0
      "[\<lparr>at_name = ''Alice'', at_score = 5, at_timestamp = 10, at_date = ''day 0''\<rparr>]"
      "''Bob''" 5 20 "''day 0''"] a b
  show ?thesis by simp
qed

text \<open>
  The claim as the specification states it asks for strictly descending scores. After
  Alice and Bob have each collected one pill the leaderboard holds two entries of score 1.
\<close>

theorem alltime_not_strictly_sorted:
  "map at_name (allTimeLeaderboard (run utcDate (initialState utcDate 0) scenarioTie)) =
     [''Alice'', ''Bob''] \<and>
   map at_score (allTimeLeaderboard (run utcDate (initialState utcDate 0) scenarioTie)) = [1, 1] \<and>
   \<not> sorted_wrt (>) (map at_score
        (allTimeLeaderboard (run utcDate (initialState utcDate 0) scenarioTie)))"
proof -
  have "allTimeLeaderboard (run utcDate (initialState utcDate 0) scenarioTie) =
     [\<lparr>at_name = ''Alice'', at_score = 1, at_timestamp = 7000, at_date = ''day 0''\<rparr>,
      \<lparr>at_name = ''Bob'', at_score = 1, at_timestamp = 8000, at_date = ''day 0''\<rparr>]"
    by (simp add: scenarioTie_def scenario_simps)
  then show ?thesis by simp
qed

lemma updateAllTimeEntries_report:
  "(find (\<lambda>entry. at_name entry = n) lb = None \<longrightarrow>
      updateAllTimeEntries lb n sc now d =
        take 3 (sortByScoreDesc at_score
          (lb @ [\<lparr>at_name = n, at_score = sc, at_timestamp = now, at_date = d\<rparr>]))) \<and>
   (\<forall>old. find (\<lambda>entry. at_name entry = n) lb = Some old \<and> sc > at_score old \<and>
        distinct (map at_name lb) \<longrightarrow>
      updateAllTimeEntries lb n sc now d =
        take 3 (sortByScoreDesc at_score
          (map (\<lambda>entry. if at_name entry = n
                  then \<lparr>at_name = n, at_score = sc, at_timestamp = now, at_date = d\<rparr>
                  else entry) lb))) \<and>
   (\<forall>old. find (\<lambda>entry. at_name entry = n) lb = Some old \<and> sc \<le> at_score old \<longrightarrow>
      updateAllTimeEntries lb n sc now d = take 3 (sortByScoreDesc at_score lb)) \<and>
   (\<forall>old. find (\<lambda>entry. at_name entry = n) lb = Some old \<and> sc \<le> at_score old \<and>
        allTimeOk lb \<longrightarrow>
      updateAllTimeEntries lb n sc now d = lb) \<and>
   sorted_wrt (\<lambda>a b. at_score a \<ge> at_score b) (updateAllTimeEntries lb n sc now d) \<and>
   length (updateAllTimeEntries lb n sc now d) \<le> 3"
proof (intro conjI allI impI)
  assume "find (\<lambda>entry. at_name entry = n) lb = None"
  then have "findIndex (\<lambda>entry. at_name entry = n) lb = None"
    by (simp add: find_findIndex_None)
  then show "updateAllTimeEntries lb n sc now d =
        take 3 (sortByScoreDesc at_score
          (lb @ [\<lparr>at_name = n, at_score = sc, at_timestamp = now, at_date = d\<rparr>]))"
    by (simp add: updateAllTimeEntries_def)
next
  fix old
  assume a: "find (\<lambda>entry. at_name entry = n) lb = Some old \<and> sc > at_score old \<and>
        distinct (map at_name lb)"
  then obtain i where i: "findIndex (\<lambda>entry. at_name entry = n) lb = Some i"
    using find_findIndex_None [of "\<lambda>entry. at_name entry = n" lb] by (cases "findIndex (\<lambda>entry. at_name entry = n) lb") auto
  from find_findIndex_Some [OF i] a have old: "lb ! i = old" by simp
  from findIndex_Some [OF i] have ii: "i < length lb" "at_name (lb ! i) = n" by auto
  from replace_by_name [of lb i n] a ii
  have "lb[i := e] = map (\<lambda>x. if at_name x = n then e else x) lb" for e by simp
  with i old a show "updateAllTimeEntries lb n sc now d =
        take 3 (sortByScoreDesc at_score
          (map (\<lambda>entry. if at_name entry = n
                  then \<lparr>at_name = n, at_score = sc, at_timestamp = now, at_date = d\<rparr>
                  else entry) lb))"
    by (simp add: updateAllTimeEntries_def)
next
  fix old
  assume a: "find (\<lambda>entry. at_name entry = n) lb = Some old \<and> sc \<le> at_score old"
  then obtain i where i: "findIndex (\<lambda>entry. at_name entry = n) lb = Some i"
    using find_findIndex_None [of "\<lambda>entry. at_name entry = n" lb] by (cases "findIndex (\<lambda>entry. at_name entry = n) lb") auto
  from find_findIndex_Some [OF i] a have old: "lb ! i = old" by simp
  with i a show "updateAllTimeEntries lb n sc now d = take 3 (sortByScoreDesc at_score lb)"
    by (simp add: updateAllTimeEntries_def)
next
  fix old
  assume a: "find (\<lambda>entry. at_name entry = n) lb = Some old \<and> sc \<le> at_score old \<and>
        allTimeOk lb"
  then obtain i where i: "findIndex (\<lambda>entry. at_name entry = n) lb = Some i"
    using find_findIndex_None [of "\<lambda>entry. at_name entry = n" lb] by (cases "findIndex (\<lambda>entry. at_name entry = n) lb") auto
  from find_findIndex_Some [OF i] a have old: "lb ! i = old" by simp
  from a have "sortByScoreDesc at_score lb = lb" "length lb \<le> 3"
    by (simp_all add: allTimeOk_def sortByScoreDesc_id)
  with i old a show "updateAllTimeEntries lb n sc now d = lb"
    by (simp add: updateAllTimeEntries_def)
next
  show "sorted_wrt (\<lambda>a b. at_score a \<ge> at_score b) (updateAllTimeEntries lb n sc now d)"
    by (rule updateAllTimeEntries_sorted)
next
  show "length (updateAllTimeEntries lb n sc now d) \<le> 3"
    by (rule updateAllTimeEntries_length)
qed

section \<open>Session tokens\<close>

lemma trim_Nil [simp]: "trim [] = []"
  by (simp add: trim_def)

lemma restoreScore_match:
  "tok \<noteq> [] \<Longrightarrow> map_of tokens tok = Some td \<Longrightarrow> tk_name td = clean \<Longrightarrow>
   restoreScore tokens (Some tok) clean = (tk_score td, AList.delete tok tokens)"
  by (simp add: restoreScore_def)

lemma restoreScore_other:
  "\<not> (\<exists>tok td. t = Some tok \<and> tok \<noteq> [] \<and> map_of tokens tok = Some td \<and> tk_name td = clean) \<Longrightarrow>
   restoreScore tokens t clean = (0, tokens)"
  by (auto simp: restoreScore_def split: option.splits)

lemma setUsernameBody_valid:
  assumes "map_of (players s) sid = Some p" "trim u \<noteq> []"
  shows "players (setUsernameBody s sid (Some u) t now) =
           AList.update sid (p\<lparr>pl_name := cleanUsername u,
              pl_score := fst (restoreScore (sessionTokens s) t (cleanUsername u))\<rparr>) (players s)"
    and "sessionTokens (setUsernameBody s sid (Some u) t now) =
           snd (restoreScore (sessionTokens s) t (cleanUsername u))"
    and "playerScores (setUsernameBody s sid (Some u) t now) =
           AList.update (cleanUsername u @ ''_'' @ sid)
             \<lparr>sr_name = cleanUsername u,
              sr_score = fst (restoreScore (sessionTokens s) t (cleanUsername u)),
              sr_lastSeen = now\<rparr> (playerScores s)"
    and "outbox (setUsernameBody s sid (Some u) t now) =
           outbox s @ [(ToAll, PlayerUpdate (playerUpdateOf
              (p\<lparr>pl_name := cleanUsername u,
                 pl_score := fst (restoreScore (sessionTokens s) t (cleanUsername u))\<rparr>)
              (Some (fst (restoreScore (sessionTokens s) t (cleanUsername u))))))]"
proof -
  from assms(2) have "u \<noteq> []" by auto
  with assms show
    "players (setUsernameBody s sid (Some u) t now) =
           AList.update sid (p\<lparr>pl_name := cleanUsername u,
              pl_score := fst (restoreScore (sessionTokens s) t (cleanUsername u))\<rparr>) (players s)"
    "sessionTokens (setUsernameBody s sid (Some u) t now) =
           snd (restoreScore (sessionTokens s) t (cleanUsername u))"
    "playerScores (setUsernameBody s sid (Some u) t now) =
           AList.update (cleanUsername u @ ''_'' @ sid)
             \<lparr>sr_name = cleanUsername u,
              sr_score = fst (restoreScore (sessionTokens s) t (cleanUsername u)),
              sr_lastSeen = now\<rparr> (playerScores s)"
    "outbox (setUsernameBody s sid (Some u) t now) =
           outbox s @ [(ToAll, PlayerUpdate (playerUpdateOf
              (p\<lparr>pl_name := cleanUsername u,
                 pl_score := fst (restoreScore (sessionTokens s) t (cleanUsername u))\<rparr>)
              (Some (fst (restoreScore (sessionTokens s) t (cleanUsername u))))))]"
    by (simp_all add: setUsernameBody_def Let_def split: prod.splits)
qed

lemma setUsernameBody_invalid:
  "map_of (players s) sid = None \<or> u = None \<or> trim (the u) = [] \<Longrightarrow>
   setUsernameBody s sid u t now = s"
  by (auto simp: setUsernameBody_def split: option.splits)

lemma score_after_update:
  "map_option pl_score (map_of (AList.update sid p al) sid) = Some (pl_score p)"
  by (simp add: update_conv')

lemma cleanup_sound:
  "map_of (sessionTokens (cleanupExpiredTokens s now)) tok = Some td \<Longrightarrow>
   now - tk_created td \<le> TWENTY_FOUR_HOURS"
  by (auto simp: cleanupExpiredTokens_def dest!: map_of_SomeD)

lemma map_of_filter_distinct:
  "distinct (map fst al) \<Longrightarrow> map_of al k = Some v \<Longrightarrow> P (k, v) \<Longrightarrow>
   map_of (filter P al) k = Some v"
  by (induction al) (auto simp: rev_image_eqI)

lemma cleanup_keeps:
  "distinct (map fst (sessionTokens s)) \<Longrightarrow> map_of (sessionTokens s) tok = Some td \<Longrightarrow>
   now - tk_created td \<le> TWENTY_FOUR_HOURS \<Longrightarrow>
   map_of (sessionTokens (cleanupExpiredTokens s now)) tok = Some td"
  by (simp add: cleanupExpiredTokens_def map_of_filter_distinct)

lemma disconnect_tokens:
  assumes "map_of (players s) sid = Some p" "pl_name p \<noteq> []" "pl_score p > 0"
  shows "sessionTokens (disconnect s sid stamp now) =
           AList.update (generateSessionToken stamp)
             \<lparr>tk_name = pl_name p, tk_score = pl_score p, tk_created = now\<rparr> (sessionTokens s)"
  using assms by (simp add: disconnect_def Let_def)

lemma connect_player:
  "\<exists>q. map_of (players (connect s sid x y c now)) sid = Some q"
  by (simp add: connect_def Let_def update_conv')

lemma cleanUsername_nonempty: "cleanUsername u \<noteq> [] \<Longrightarrow> trim u \<noteq> []"
  by (auto simp: cleanUsername_def)

lemma setUsername_redeems:
  assumes "map_of (players s) sid = Some q" "trim u \<noteq> []" "tok \<noteq> []"
    "map_of (sessionTokens s) tok = Some td" "tk_name td = cleanUsername u"
    "setUsername s sid (NameObject (Some u) (Some tok)) now = Inr s'"
  shows "map_of (players s') sid = Some (q\<lparr>pl_name := cleanUsername u, pl_score := tk_score td\<rparr>)"
    and "sessionTokens s' = AList.delete tok (sessionTokens s)"
proof -
  from assms(6) have s': "s' = setUsernameBody s sid (Some u) (Some tok) now"
    by (simp add: setUsername_def)
  note v = setUsernameBody_valid [OF assms(1,2), of "Some tok" now, folded s']
  from restoreScore_match [OF assms(3,4,5)] v
  show "map_of (players s') sid = Some (q\<lparr>pl_name := cleanUsername u, pl_score := tk_score td\<rparr>)"
    and "sessionTokens s' = AList.delete tok (sessionTokens s)"
    by (simp_all add: update_conv')
qed

lemma setUsername_fresh:
  assumes "map_of (players s) sid = Some q" "trim u \<noteq> []"
    "\<not> (\<exists>tok td. t = Some tok \<and> tok \<noteq> [] \<and> map_of (sessionTokens s) tok = Some td \<and>
          tk_name td = cleanUsername u)"
    "setUsername s sid (NameObject (Some u) t) now = Inr s'"
  shows "players s' = AList.update sid (q\<lparr>pl_name := cleanUsername u, pl_score := 0\<rparr>) (players s)"
    and "sessionTokens s' = sessionTokens s"
    and "playerScores s' = AList.update (cleanUsername u @ ''_'' @ sid)
           \<lparr>sr_name = cleanUsername u, sr_score = 0, sr_lastSeen = now\<rparr> (playerScores s)"
proof -
  from assms(4) have s': "s' = setUsernameBody s sid (Some u) t now"
    by (simp add: setUsername_def)
  note v = setUsernameBody_valid [OF assms(1,2), of t now, folded s']
  from restoreScore_other [OF assms(3)] v
  show "players s' = AList.update sid (q\<lparr>pl_name := cleanUsername u, pl_score := 0\<rparr>) (players s)"
    and "sessionTokens s' = sessionTokens s"
    and "playerScores s' = AList.update (cleanUsername u @ ''_'' @ sid)
           \<lparr>sr_name = cleanUsername u, sr_score = 0, sr_lastSeen = now\<rparr> (playerScores s)"
    by simp_all
qed

lemma played_players:
  "players played =
     [(''a'', \<lparr>pl_id = ''a'', pl_x = Some 500, pl_y = Some 500, pl_health = 100,
               pl_maxHealth = 100, pl_color = ''#00d4ff'', pl_name = ''Alice'', pl_angle = 0,
               pl_direction = 1, pl_weaponAngle = 0, pl_kills = 0, pl_score = 1,
               pl_lastActivity = 7000, pl_lastMovementUpdate = Some 7000\<rparr>)]"
  by (simp add: played_def scenarioPlay_def scenario_simps)

lemma played_tokens: "sessionTokens played = []"
  by (simp add: played_def scenarioPlay_def scenario_simps)

lemma played_alice:
  "map_of (players played) ''a'' =
     Some \<lparr>pl_id = ''a'', pl_x = Some 500, pl_y = Some 500, pl_health = 100,
               pl_maxHealth = 100, pl_color = ''#00d4ff'', pl_name = ''Alice'', pl_angle = 0,
               pl_direction = 1, pl_weaponAngle = 0, pl_kills = 0, pl_score = 1,
               pl_lastActivity = 7000, pl_lastMovementUpdate = Some 7000\<rparr>"
  by (simp add: played_players)

lemma left_tokens:
  "sessionTokens (disconnect played ''a'' ''10000_abc'' 10000) =
     [(''session_10000_abc'', \<lparr>tk_name = ''Alice'', tk_score = 1, tk_created = 10000\<rparr>)]"
  using disconnect_tokens [OF played_alice, of "''10000_abc''" 10000]
  by (simp add: played_tokens generateSessionToken_def)

lemma reconnected_tokens:
  "sessionTokens reconnected =
     [(''session_10000_abc'', \<lparr>tk_name = ''Alice'', tk_score = 1, tk_created = 10000\<rparr>)]"
  by (simp add: reconnected_def left_tokens)

lemma reconnectedLate_tokens:
  "sessionTokens reconnectedLate =
     [(''session_10000_abc'', \<lparr>tk_name = ''Alice'', tk_score = 1, tk_created = 10000\<rparr>)]"
  by (simp add: reconnectedLate_def left_tokens cleanupExpiredTokens_def TWENTY_FOUR_HOURS_def)

lemma reconnected_bob: "\<exists>q. map_of (players reconnected) ''b'' = Some q"
  using connect_player [of _ "''b''"] by (simp add: reconnected_def)

lemma reconnectedLate_bob: "\<exists>q. map_of (players reconnectedLate) ''b'' = Some q"
  using connect_player [of _ "''b''"] by (simp add: reconnectedLate_def)

lemma trim_Alice: "trim ''Alice'' = ''Alice''"
  by (simp add: trim_def isWhiteSpace_def)

lemma clean_Alice: "cleanUsername ''Alice'' = ''Alice''"
  by (simp add: cleanUsername_def trim_Alice)

lemma trim_Bob: "trim ''Bob'' = ''Bob''"
  by (simp add: trim_def isWhiteSpace_def)

lemma clean_Bob: "cleanUsername ''Bob'' = ''Bob''"
  by (simp add: cleanUsername_def trim_Bob)

lemma restoreScore_distinct:
  "distinct (map fst tokens) \<Longrightarrow> distinct (map fst (snd (restoreScore tokens t clean)))"
  by (auto simp: restoreScore_def distinct_delete split: option.splits)

lemma setUsernameBody_tokens_distinct:
  assumes "distinct (map fst (sessionTokens s))"
  shows "distinct (map fst (sessionTokens (setUsernameBody s sid u t now)))"
proof (cases "map_of (players s) sid = None \<or> u = None \<or> trim (the u) = []")
  case True
  then have "setUsernameBody s sid u t now = s"
    by (rule setUsernameBody_invalid)
  with assms show ?thesis by simp
next
  case False
  then obtain p str where p: "map_of (players s) sid = Some p" "trim str \<noteq> []"
    and u: "u = Some str"
    by auto
  from setUsernameBody_valid(2) [OF p, of t now] u
    restoreScore_distinct [OF assms, of t "cleanUsername str"]
  show ?thesis by simp
qed

lemma disconnect_tokens_distinct:
  "distinct (map fst (sessionTokens s)) \<Longrightarrow>
   distinct (map fst (sessionTokens (disconnect s sid stamp now)))"
  by (auto simp: disconnect_def Let_def distinct_update split: option.splits)

lemma cleanup_tokens_distinct:
  "distinct (map fst (sessionTokens s)) \<Longrightarrow>
   distinct (map fst (sessionTokens (cleanupExpiredTokens s now)))"
  by (simp add: cleanupExpiredTokens_def distinct_map_filter)

lemma sessionTokens_move:
  "move D s sid data now = Inr s' \<Longrightarrow> sessionTokens s' = sessionTokens s"
  by (auto simp: move_def moveBody_def Let_def split: option.splits if_splits)

lemma step_tokens_distinct:
  assumes "step D s e = Inr s'" "distinct (map fst (sessionTokens s))"
  shows "distinct (map fst (sessionTokens s'))"
proof (cases e)
  case (SetUsername sid data now)
  with assms setUsernameBody_tokens_distinct [of s sid _ _ now] show ?thesis
    by (auto simp: setUsername_def split: username_data.splits)
next
  case (Move sid data now)
  with assms sessionTokens_move [of D s sid data now s'] show ?thesis by simp
next
  case (Disconnect sid stamp now)
  with assms disconnect_tokens_distinct [of s sid stamp now] show ?thesis by auto
next
  case (CleanupTick now)
  with assms cleanup_tokens_distinct [of s now] show ?thesis by auto
qed (use assms in auto)

lemma run_tokens_distinct:
  "distinct (map fst (sessionTokens s)) \<Longrightarrow> distinct (map fst (sessionTokens (run D s evs)))"
proof (induction evs arbitrary: s)
  case Nil
  then show ?case by simp
next
  case (Cons e evs)
  show ?case
  proof (cases "step D s e")
    case (Inl err)
    with Cons.prems show ?thesis by simp
  next
    case (Inr s')
    with Cons.prems have "distinct (map fst (sessionTokens s'))"
      by (simp add: step_tokens_distinct)
    with Cons.IH Inr show ?thesis by simp
  qed
qed

lemma reachable_tokens_distinct:
  "distinct (map fst (sessionTokens (run D (initialState D t0) evs)))"
  by (rule run_tokens_distinct)
    (simp add: initialState_def initializeDailyReset_def updateTimeRemaining_def)

lemma setUsernameBody_rest:
  assumes "map_of (players s) sid = Some p" "trim u \<noteq> []"
  shows "disk (setUsernameBody s sid (Some u) t now) =
           (disk s)\<lparr>file_playerScores :=
              Some (playerScores (setUsernameBody s sid (Some u) t now))\<rparr>"
    and "playerCount (setUsernameBody s sid (Some u) t now) = playerCount s"
    and "nextPlayerId (setUsernameBody s sid (Some u) t now) = nextPlayerId s"
proof -
  from assms(2) have "u \<noteq> []" by auto
  with assms show
    "disk (setUsernameBody s sid (Some u) t now) =
           (disk s)\<lparr>file_playerScores :=
              Some (playerScores (setUsernameBody s sid (Some u) t now))\<rparr>"
    "playerCount (setUsernameBody s sid (Some u) t now) = playerCount s"
    "nextPlayerId (setUsernameBody s sid (Some u) t now) = nextPlayerId s"
    by (simp_all add: setUsernameBody_def Let_def savePlayerScores_def emit_def
        split: prod.splits)
qed

lemma playerScores_disconnect [simp]:
  "playerScores (disconnect s sid stamp now) = playerScores s"
  by (simp add: disconnect_def Let_def split: option.splits)

lemma playerScores_connect [simp]:
  "playerScores (connect s sid x y c now) = playerScores s"
  by (simp add: connect_def Let_def)

lemma played_scores:
  "playerScores played =
     [(''Alice_a'', \<lparr>sr_name = ''Alice'', sr_score = 1, sr_lastSeen = 7000\<rparr>)]"
  by (simp add: played_def scenarioPlay_def scenario_simps)

lemma reconnected_scores:
  "playerScores reconnected =
     [(''Alice_a'', \<lparr>sr_name = ''Alice'', sr_score = 1, sr_lastSeen = 7000\<rparr>)]"
  by (simp add: reconnected_def played_scores)

section \<open>Score reports\<close>

lemma updateAllTimeLeaderboard_effects:
  "disk (updateAllTimeLeaderboard D s n sc now) =
     (disk s)\<lparr>file_allTimeLeaderboard :=
        Some (allTimeLeaderboard (updateAllTimeLeaderboard D s n sc now))\<rparr>"
  "outbox (updateAllTimeLeaderboard D s n sc now) =
     outbox s @ [(ToAll, AllTimeLeaderboardUpdate
        (allTimeLeaderboard (updateAllTimeLeaderboard D s n sc now)))]"
  by (simp_all add: updateAllTimeLeaderboard_def saveAllTimeLeaderboard_def emit_def Let_def)

lemma played_allTime:
  "allTimeLeaderboard played =
     [\<lparr>at_name = ''Alice'', at_score = 1, at_timestamp = 7000, at_date = ''day 0''\<rparr>]"
  by (simp add: played_def scenarioPlay_def scenario_simps)

text \<open>
  Claim C7. A score report is \<open>updateAllTimeLeaderboard\<close>, called by every collection
  with the collector's name and new score. On the server's leaderboard, a report for a
  name without an entry appends a new entry; for a name with an entry it replaces that
  entry when the reported score is strictly greater and leaves the entries alone when it
  is lower or equal; in every case the entries are then sorted by descending score and cut
  to the first three, and the result is saved and broadcast. On a leaderboard that is
  already sorted and short, a lower or equal score leaves the leaderboard as it was.
\<close>

theorem alltime_report:
  assumes "s' = updateAllTimeLeaderboard D s n sc now"
    and "new = \<lparr>at_name = n, at_score = sc, at_timestamp = now,
                 at_date = toLocaleDateString D now\<rparr>"
  shows
  "(find (\<lambda>entry. at_name entry = n) (allTimeLeaderboard s) = None \<longrightarrow>
      allTimeLeaderboard s' =
        take 3 (sortByScoreDesc at_score (allTimeLeaderboard s @ [new]))) \<and>
   (\<forall>old. find (\<lambda>entry. at_name entry = n) (allTimeLeaderboard s) = Some old \<and>
        sc > at_score old \<and> distinct (map at_name (allTimeLeaderboard s)) \<longrightarrow>
      allTimeLeaderboard s' =
        take 3 (sortByScoreDesc at_score
          (map (\<lambda>entry. if at_name entry = n then new else entry) (allTimeLeaderboard s)))) \<and>
   (\<forall>old. find (\<lambda>entry. at_name entry = n) (allTimeLeaderboard s) = Some old \<and>
        sc \<le> at_score old \<longrightarrow>
      allTimeLeaderboard s' = take 3 (sortByScoreDesc at_score (allTimeLeaderboard s))) \<and>
   (\<forall>old. find (\<lambda>entry. at_name entry = n) (allTimeLeaderboard s) = Some old \<and>
        sc \<le> at_score old \<and> allTimeOk (allTimeLeaderboard s) \<longrightarrow>
      allTimeLeaderboard s' = allTimeLeaderboard s) \<and>
   sorted_wrt (\<lambda>a b. at_score a \<ge> at_score b) (allTimeLeaderboard s') \<and>
   length (allTimeLeaderboard s') \<le> 3 \<and>
   file_allTimeLeaderboard (disk s') = Some (allTimeLeaderboard s') \<and>
   outbox s' = outbox s @ [(ToAll, AllTimeLeaderboardUpdate (allTimeLeaderboard s'))] \<and>
   allTimeLeaderboard (collectPill D s pid p k pill now) =
     allTimeLeaderboard
       (updateAllTimeLeaderboard D s (pl_name p) (pl_score p + pill_points pill) now)"
proof -
  have lb: "allTimeLeaderboard s' =
      updateAllTimeEntries (allTimeLeaderboard s) n sc now (toLocaleDateString D now)"
    by (simp add: assms(1))
  note r = updateAllTimeEntries_report
    [of n "allTimeLeaderboard s" sc now "toLocaleDateString D now", folded lb assms(2)]
  have eff: "file_allTimeLeaderboard (disk s') = Some (allTimeLeaderboard s')"
    "outbox s' = outbox s @ [(ToAll, AllTimeLeaderboardUpdate (allTimeLeaderboard s'))]"
    unfolding assms(1) by (simp_all add: updateAllTimeLeaderboard_effects)
  have col: "allTimeLeaderboard (collectPill D s pid p k pill now) =
     allTimeLeaderboard
       (updateAllTimeLeaderboard D s (pl_name p) (pl_score p + pill_points pill) now)"
    by simp
  from r eff col show ?thesis by blast
qed

theorem alltime_report_witness:
  "allTimeLeaderboard played =
     [\<lparr>at_name = ''Alice'', at_score = 1, at_timestamp = 7000, at_date = ''day 0''\<rparr>] \<and>
   find (\<lambda>entry. at_name entry = ''Bob'') (allTimeLeaderboard played) = None \<and>
   allTimeLeaderboard (updateAllTimeLeaderboard utcDate played ''Bob'' 7 9000) =
     [\<lparr>at_name = ''Bob'', at_score = 7, at_timestamp = 9000, at_date = ''day 0''\<rparr>,
      \<lparr>at_name = ''Alice'', at_score = 1, at_timestamp = 7000, at_date = ''day 0''\<rparr>] \<and>
   find (\<lambda>entry. at_name entry = ''Alice'') (allTimeLeaderboard played) =
     Some \<lparr>at_name = ''Alice'', at_score = 1, at_timestamp = 7000, at_date = ''day 0''\<rparr> \<and>
   allTimeLeaderboard (updateAllTimeLeaderboard utcDate played ''Alice'' 2 9000) =
     [\<lparr>at_name = ''Alice'', at_score = 2, at_timestamp = 9000, at_date = ''day 0''\<rparr>] \<and>
   allTimeLeaderboard (updateAllTimeLeaderboard utcDate played ''Alice'' 1 9000) =
     allTimeLeaderboard played \<and>
   file_allTimeLeaderboard (disk (updateAllTimeLeaderboard utcDate played ''Bob'' 7 9000)) =
     Some [\<lparr>at_name = ''Bob'', at_score = 7, at_timestamp = 9000, at_date = ''day 0''\<rparr>,
           \<lparr>at_name = ''Alice'', at_score = 1, at_timestamp = 7000, at_date = ''day 0''\<rparr>]"
proof -
  have day: "toLocaleDateString utcDate 9000 = ''day 0''"
    by (simp add: utcDate_def decimal.simps)
  have ok: "allTimeOk (allTimeLeaderboard played)"
    by (simp add: played_allTime allTimeOk_def)
  from alltime_report [where D = utcDate and s = played and n = "''Bob''" and sc = 7 and now = 9000,
      OF refl refl]
  have a: "allTimeLeaderboard (updateAllTimeLeaderboard utcDate played ''Bob'' 7 9000) =
     [\<lparr>at_name = ''Bob'', at_score = 7, at_timestamp = 9000, at_date = ''day 0''\<rparr>,
      \<lparr>at_name = ''Alice'', at_score = 1, at_timestamp = 7000, at_date = ''day 0''\<rparr>]"
    and f: "file_allTimeLeaderboard (disk (updateAllTimeLeaderboard utcDate played ''Bob'' 7 9000)) =
     Some (allTimeLeaderboard (updateAllTimeLeaderboard utcDate played ''Bob'' 7 9000))"
    by (simp_all add: played_allTime day sortByScoreDesc_def)
  from alltime_report [where D = utcDate and s = played and n = "''Alice''" and sc = 2 and now = 9000,
      OF refl refl]
  have b: "allTimeLeaderboard (updateAllTimeLeaderboard utcDate played ''Alice'' 2 9000) =
     [\<lparr>at_name = ''Alice'', at_score = 2, at_timestamp = 9000, at_date = ''day 0''\<rparr>]"
    by (simp add: played_allTime day sortByScoreDesc_def)
  from alltime_report [where D = utcDate and s = played and n = "''Alice''" and sc = 1 and now = 9000,
      OF refl refl] ok
  have c: "allTimeLeaderboard (updateAllTimeLeaderboard utcDate played ''Alice'' 1 9000) =
     allTimeLeaderboard played"
    by (simp add: played_allTime sortByScoreDesc_def)
  from a b c f show ?thesis
    by (simp add: played_allTime)
qed

section \<open>Token redemption\<close>

lemma token_redemption_core:
  assumes "setUsername s sid (NameObject (Some u) (Some tok)) now = Inr s'"
  shows
  "((map_of (sessionTokens s) tok \<noteq> None \<and> map_of (sessionTokens s') tok = None) \<longleftrightarrow>
      (\<exists>p td. map_of (players s) sid = Some p \<and> trim u \<noteq> [] \<and> tok \<noteq> [] \<and>
         map_of (sessionTokens s) tok = Some td \<and> tk_name td = cleanUsername u)) \<and>
   (\<forall>p td. map_of (players s) sid = Some p \<and> trim u \<noteq> [] \<and> tok \<noteq> [] \<and>
         map_of (sessionTokens s) tok = Some td \<and> tk_name td = cleanUsername u \<longrightarrow>
       map_option pl_score (map_of (players s') sid) = Some (tk_score td) \<and>
       sessionTokens s' = AList.delete tok (sessionTokens s)) \<and>
   (\<forall>p. map_of (players s) sid = Some p \<and> trim u \<noteq> [] \<and>
       \<not> (\<exists>td. tok \<noteq> [] \<and> map_of (sessionTokens s) tok = Some td \<and>
              tk_name td = cleanUsername u) \<longrightarrow>
       map_option pl_score (map_of (players s') sid) = Some 0 \<and>
       sessionTokens s' = sessionTokens s) \<and>
   (\<forall>t td. map_of (sessionTokens (cleanupExpiredTokens s now)) t = Some td \<longrightarrow>
       now - tk_created td \<le> 24 * 60 * 60 * 1000)"
proof -
  from assms have s': "s' = setUsernameBody s sid (Some u) (Some tok) now"
    by (simp add: setUsername_def)
  have sweep: "\<forall>t td. map_of (sessionTokens (cleanupExpiredTokens s now)) t = Some td \<longrightarrow>
       now - tk_created td \<le> 24 * 60 * 60 * 1000"
    using cleanup_sound [of s now] by (simp add: TWENTY_FOUR_HOURS_def)
  show ?thesis
  proof (cases "\<exists>p. map_of (players s) sid = Some p \<and> trim u \<noteq> []")
    case False
    then have "map_of (players s) sid = None \<or> Some u = None \<or> trim (the (Some u)) = []"
      by auto
    then have "s' = s"
      unfolding s' by (rule setUsernameBody_invalid)
    with False sweep show ?thesis by auto
  next
    case True
    then obtain p where p: "map_of (players s) sid = Some p" "trim u \<noteq> []" by blast
    note v = setUsernameBody_valid [OF p, of "Some tok" now, folded s']
    show ?thesis
    proof (cases "\<exists>td. tok \<noteq> [] \<and> map_of (sessionTokens s) tok = Some td \<and>
              tk_name td = cleanUsername u")
      case True
      then obtain td where td: "tok \<noteq> []" "map_of (sessionTokens s) tok = Some td"
        "tk_name td = cleanUsername u" by blast
      from restoreScore_match [OF td] v
      have "map_option pl_score (map_of (players s') sid) = Some (tk_score td)"
        "sessionTokens s' = AList.delete tok (sessionTokens s)"
        by (simp_all add: update_conv')
      with p td sweep show ?thesis
        by (auto simp: delete_conv')
    next
      case False
      then have "restoreScore (sessionTokens s) (Some tok) (cleanUsername u) = (0, sessionTokens s)"
        by (intro restoreScore_other) auto
      with v have "map_option pl_score (map_of (players s') sid) = Some 0"
        "sessionTokens s' = sessionTokens s"
        by (simp_all add: update_conv')
      with p False sweep show ?thesis
        by auto
    qed
  qed
qed

text \<open>
  Claim C1, as amended. A \<open>setUsername\<close> that presents a token redeems it (the token
  leaves the store) exactly when the player exists, the username is not empty after
  trimming, the token is a non-empty string that is in the store, and its bound name
  equals the sanitized username; then the player's score is the bound score. In every
  other case with a valid username the score is 0 and the store is unchanged. The age of
  the token is not looked at by the handler: tokens older than 24 hours leave the store
  only through the sweep, after which no token older than 24 hours remains and every
  younger token is still there.
\<close>

theorem token_redemption:
  assumes "setUsername s sid (NameObject (Some u) (Some tok)) now = Inr s'"
  shows
  "((map_of (sessionTokens s) tok \<noteq> None \<and> map_of (sessionTokens s') tok = None) \<longleftrightarrow>
      (\<exists>p td. map_of (players s) sid = Some p \<and> trim u \<noteq> [] \<and> tok \<noteq> [] \<and>
         map_of (sessionTokens s) tok = Some td \<and> tk_name td = cleanUsername u)) \<and>
   (\<forall>p td. map_of (players s) sid = Some p \<and> trim u \<noteq> [] \<and> tok \<noteq> [] \<and>
         map_of (sessionTokens s) tok = Some td \<and> tk_name td = cleanUsername u \<longrightarrow>
       map_option pl_score (map_of (players s') sid) = Some (tk_score td) \<and>
       sessionTokens s' = AList.delete tok (sessionTokens s)) \<and>
   (\<forall>p. map_of (players s) sid = Some p \<and> trim u \<noteq> [] \<and>
       \<not> (\<exists>td. tok \<noteq> [] \<and> map_of (sessionTokens s) tok = Some td \<and>
              tk_name td = cleanUsername u) \<longrightarrow>
       map_option pl_score (map_of (players s') sid) = Some 0 \<and>
       sessionTokens s' = sessionTokens s) \<and>
   (\<forall>t td. map_of (sessionTokens (cleanupExpiredTokens s now)) t = Some td \<longrightarrow>
       now - tk_created td \<le> 24 * 60 * 60 * 1000) \<and>
   (distinct (map fst (sessionTokens s)) \<longrightarrow>
      (\<forall>t td. map_of (sessionTokens s) t = Some td \<and>
           now - tk_created td \<le> 24 * 60 * 60 * 1000 \<longrightarrow>
         map_of (sessionTokens (cleanupExpiredTokens s now)) t = Some td))"
proof -
  have keeps: "distinct (map fst (sessionTokens s)) \<longrightarrow>
      (\<forall>t td. map_of (sessionTokens s) t = Some td \<and>
           now - tk_created td \<le> 24 * 60 * 60 * 1000 \<longrightarrow>
         map_of (sessionTokens (cleanupExpiredTokens s now)) t = Some td)"
    using cleanup_keeps [of s _ _ now] by (simp add: TWENTY_FOUR_HOURS_def)
  note core = token_redemption_core [OF assms]
  from core have c1: "(map_of (sessionTokens s) tok \<noteq> None \<and>
        map_of (sessionTokens s') tok = None) \<longleftrightarrow>
      (\<exists>p td. map_of (players s) sid = Some p \<and> trim u \<noteq> [] \<and> tok \<noteq> [] \<and>
         map_of (sessionTokens s) tok = Some td \<and> tk_name td = cleanUsername u)"
    by (rule conjunct1)
  from core have rest: "(\<forall>p td. map_of (players s) sid = Some p \<and> trim u \<noteq> [] \<and> tok \<noteq> [] \<and>
         map_of (sessionTokens s) tok = Some td \<and> tk_name td = cleanUsername u \<longrightarrow>
       map_option pl_score (map_of (players s') sid) = Some (tk_score td) \<and>
       sessionTokens s' = AList.delete tok (sessionTokens s)) \<and>
   (\<forall>p. map_of (players s) sid = Some p \<and> trim u \<noteq> [] \<and>
       \<not> (\<exists>td. tok \<noteq> [] \<and> map_of (sessionTokens s) tok = Some td \<and>
              tk_name td = cleanUsername u) \<longrightarrow>
       map_option pl_score (map_of (players s') sid) = Some 0 \<and>
       sessionTokens s' = sessionTokens s) \<and>
   (\<forall>t td. map_of (sessionTokens (cleanupExpiredTokens s now)) t = Some td \<longrightarrow>
       now - tk_created td \<le> 24 * 60 * 60 * 1000)"
    by (rule conjunct2)
  from rest have c2: "\<forall>p td. map_of (players s) sid = Some p \<and> trim u \<noteq> [] \<and> tok \<noteq> [] \<and>
         map_of (sessionTokens s) tok = Some td \<and> tk_name td = cleanUsername u \<longrightarrow>
       map_option pl_score (map_of (players s') sid) = Some (tk_score td) \<and>
       sessionTokens s' = AList.delete tok (sessionTokens s)"
    by (rule conjunct1)
  from rest have c3: "\<forall>p. map_of (players s) sid = Some p \<and> trim u \<noteq> [] \<and>
       \<not> (\<exists>td. tok \<noteq> [] \<and> map_of (sessionTokens s) tok = Some td \<and>
              tk_name td = cleanUsername u) \<longrightarrow>
       map_option pl_score (map_of (players s') sid) = Some 0 \<and>
       sessionTokens s' = sessionTokens s"
    by (rule conjunct2 [THEN conjunct1])
  from rest have c4: "\<forall>t td. map_of (sessionTokens (cleanupExpiredTokens s now)) t = Some td \<longrightarrow>
       now - tk_created td \<le> 24 * 60 * 60 * 1000"
    by (rule conjunct2 [THEN conjunct2])
  show ?thesis
    by (rule conjI [OF c1 conjI [OF c2 conjI [OF c3 conjI [OF c4 keeps]]]])
qed

theorem token_redemption_witness:
  "setUsername reconnected ''b'' (NameObject (Some ''Alice'') (Some ''session_10000_abc'')) 30000 =
     Inr (run utcDate reconnected
            [SetUsername ''b'' (NameObject (Some ''Alice'') (Some ''session_10000_abc'')) 30000]) \<and>
   map_of (sessionTokens reconnected) ''session_10000_abc'' \<noteq> None \<and>
   map_of (sessionTokens (run utcDate reconnected
            [SetUsername ''b'' (NameObject (Some ''Alice'') (Some ''session_10000_abc'')) 30000]))
      ''session_10000_abc'' = None \<and>
   map_option pl_score (map_of (players (run utcDate reconnected
            [SetUsername ''b'' (NameObject (Some ''Alice'') (Some ''session_10000_abc'')) 30000]))
      ''b'') = Some 1"
proof -
  let ?s' = "run utcDate reconnected
            [SetUsername ''b'' (NameObject (Some ''Alice'') (Some ''session_10000_abc'')) 30000]"
  have st: "setUsername reconnected ''b''
              (NameObject (Some ''Alice'') (Some ''session_10000_abc'')) 30000 = Inr ?s'"
    by (simp add: setUsername_def)
  from reconnected_bob obtain q where q: "map_of (players reconnected) ''b'' = Some q" ..
  have cond: "\<exists>p td. map_of (players reconnected) ''b'' = Some p \<and> trim ''Alice'' \<noteq> [] \<and>
      ''session_10000_abc'' \<noteq> [] \<and>
      map_of (sessionTokens reconnected) ''session_10000_abc'' = Some td \<and>
      tk_name td = cleanUsername ''Alice''"
    using q by (simp add: reconnected_tokens trim_Alice clean_Alice)
  have sc: "map_option pl_score (map_of (players ?s') ''b'') = Some 1"
    using token_redemption [OF st] q
    by (simp add: reconnected_tokens trim_Alice clean_Alice)
  from token_redemption [OF st] cond
  have "map_of (sessionTokens reconnected) ''session_10000_abc'' \<noteq> None \<and>
        map_of (sessionTokens ?s') ''session_10000_abc'' = None"
    by blast
  with st sc show ?thesis by blast
qed

text \<open>
  The claim as the specification states it also asks that a token older than 24 hours
  yields score 0 before the sweep has removed it. In \<open>reconnectedLate\<close> the token was
  created at 10000; presented at 88200000, more than 24 hours later, it is redeemed.
\<close>

theorem token_redeemed_after_24_hours:
  "map_of (sessionTokens reconnectedLate) ''session_10000_abc'' =
     Some \<lparr>tk_name = ''Alice'', tk_score = 1, tk_created = 10000\<rparr> \<and>
   88200000 - 10000 > TWENTY_FOUR_HOURS \<and>
   map_option pl_score (map_of (players (run utcDate reconnectedLate
       [SetUsername ''b'' (NameObject (Some ''Alice'') (Some ''session_10000_abc'')) 88200000]))
     ''b'') = Some 1 \<and>
   map_of (sessionTokens (run utcDate reconnectedLate
       [SetUsername ''b'' (NameObject (Some ''Alice'') (Some ''session_10000_abc'')) 88200000]))
     ''session_10000_abc'' = None"
proof -
  let ?s' = "run utcDate reconnectedLate
       [SetUsername ''b'' (NameObject (Some ''Alice'') (Some ''session_10000_abc'')) 88200000]"
  have st: "setUsername reconnectedLate ''b''
              (NameObject (Some ''Alice'') (Some ''session_10000_abc'')) 88200000 = Inr ?s'"
    by (simp add: setUsername_def)
  from reconnectedLate_bob obtain q where q: "map_of (players reconnectedLate) ''b'' = Some q" ..
  have m: "map_of (sessionTokens reconnectedLate) ''session_10000_abc'' =
     Some \<lparr>tk_name = ''Alice'', tk_score = 1, tk_created = 10000\<rparr>"
    by (simp add: reconnectedLate_tokens)
  have u: "trim ''Alice'' \<noteq> []" by (simp add: trim_Alice)
  have n: "tk_name \<lparr>tk_name = ''Alice'', tk_score = 1, tk_created = 10000\<rparr> = cleanUsername ''Alice''"
    by (simp add: clean_Alice)
  have t: "''session_10000_abc'' \<noteq> []" by simp
  note r = setUsername_redeems [OF q u t m n st]
  from r m show ?thesis
    by (simp add: delete_conv' TWENTY_FOUR_HOURS_def)
qed

text \<open>
  Claim C2. A disconnect of a player with name \<open>N\<close> and score \<open>S > 0\<close> mints a token
  that binds \<open>N\<close> and \<open>S\<close> (the token store holds no key twice, as in every state
  the server reaches, \<open>reachable_tokens_distinct\<close>). When the token is not older than 24
  hours at a sweep, a later
  \<open>setUsername\<close> on a new connection whose sanitized username is \<open>N\<close> sets the score to
  \<open>S\<close> and deletes the token; a second \<open>setUsername\<close> with the same token finds no token
  and gives score 0.
\<close>

theorem token_lifecycle:
  assumes "map_of (players s) sid = Some p" "pl_name p \<noteq> []" "pl_score p > 0"
    and "distinct (map fst (sessionTokens s))"
    and "tok = generateSessionToken stamp"
    and "s1 = disconnect s sid stamp t0"
    and "s2 = cleanupExpiredTokens s1 ts" "ts - t0 \<le> TWENTY_FOUR_HOURS"
    and "s3 = connect s2 sid2 x y c t1"
    and "cleanUsername u = pl_name p"
    and "setUsername s3 sid2 (NameObject (Some u) (Some tok)) t2 = Inr s4"
    and "trim u' \<noteq> []"
    and "setUsername s4 sid2 (NameObject (Some u') (Some tok)) t3 = Inr s5"
  shows "map_of (sessionTokens s1) tok =
           Some \<lparr>tk_name = pl_name p, tk_score = pl_score p, tk_created = t0\<rparr> \<and>
         map_option pl_score (map_of (players s4) sid2) = Some (pl_score p) \<and>
         map_option pl_name (map_of (players s4) sid2) = Some (pl_name p) \<and>
         map_of (sessionTokens s4) tok = None \<and>
         map_option pl_score (map_of (players s5) sid2) = Some 0"
proof -
  let ?td = "\<lparr>tk_name = pl_name p, tk_score = pl_score p, tk_created = t0\<rparr>"
  have tok: "tok \<noteq> []"
    using assms(5) by (simp add: generateSessionToken_def)
  have t1: "sessionTokens s1 = AList.update tok ?td (sessionTokens s)"
    using disconnect_tokens [OF assms(1,2,3), of stamp t0] assms(5,6) by simp
  then have m1: "map_of (sessionTokens s1) tok = Some ?td"
    by (simp add: update_conv')
  have d1: "distinct (map fst (sessionTokens s1))"
    using assms(4) t1 by (simp add: distinct_update)
  have m2: "map_of (sessionTokens s2) tok = Some ?td"
    unfolding assms(7) using d1 m1 assms(8) by (intro cleanup_keeps) simp_all
  have m3: "map_of (sessionTokens s3) tok = Some ?td"
    using m2 assms(9) by simp
  from connect_player [of s2 sid2 x y c t1] assms(9)
  obtain q where q: "map_of (players s3) sid2 = Some q" by auto
  have u: "trim u \<noteq> []"
    using assms(2,10) by (intro cleanUsername_nonempty) simp
  have n: "tk_name ?td = cleanUsername u"
    using assms(10) by simp
  note r = setUsername_redeems [OF q u tok m3 n assms(11)]
  from r(1) assms(10) have p4: "map_option pl_score (map_of (players s4) sid2) = Some (pl_score p)"
    "map_option pl_name (map_of (players s4) sid2) = Some (pl_name p)"
    by simp_all
  from r(2) have m4: "map_of (sessionTokens s4) tok = None"
    by (simp add: delete_conv')
  from r(1) obtain q4 where q4: "map_of (players s4) sid2 = Some q4" by simp
  have "\<not> (\<exists>tok' td. Some tok = Some tok' \<and> tok' \<noteq> [] \<and>
          map_of (sessionTokens s4) tok' = Some td \<and> tk_name td = cleanUsername u')"
    using m4 by simp
  from setUsername_fresh(1) [OF q4 assms(12) this assms(13)]
  have "map_option pl_score (map_of (players s5) sid2) = Some 0"
    by (simp add: update_conv')
  with m1 p4 m4 show ?thesis by simp
qed

theorem token_lifecycle_witness:
  "map_option pl_score (map_of (players played) ''a'') = Some 1 \<and>
   map_option pl_name (map_of (players played) ''a'') = Some ''Alice'' \<and>
   map_of (sessionTokens (run utcDate played [Disconnect ''a'' ''10000_abc'' 10000]))
      ''session_10000_abc'' = Some \<lparr>tk_name = ''Alice'', tk_score = 1, tk_created = 10000\<rparr> \<and>
   map_option pl_score (map_of (players (run utcDate played
      [Disconnect ''a'' ''10000_abc'' 10000, CleanupTick 86400000,
       Connect ''b'' 150 150 ''#7c3aed'' 86400200,
       SetUsername ''b'' (NameObject (Some ''  Alice '') (Some ''session_10000_abc'')) 86400300]))
     ''b'') = Some 1 \<and>
   map_of (sessionTokens (run utcDate played
      [Disconnect ''a'' ''10000_abc'' 10000, CleanupTick 86400000,
       Connect ''b'' 150 150 ''#7c3aed'' 86400200,
       SetUsername ''b'' (NameObject (Some ''  Alice '') (Some ''session_10000_abc'')) 86400300]))
     ''session_10000_abc'' = None \<and>
   map_option pl_score (map_of (players (run utcDate played
      [Disconnect ''a'' ''10000_abc'' 10000, CleanupTick 86400000,
       Connect ''b'' 150 150 ''#7c3aed'' 86400200,
       SetUsername ''b'' (NameObject (Some ''  Alice '') (Some ''session_10000_abc'')) 86400300,
       SetUsername ''b'' (NameObject (Some ''Alice'') (Some ''session_10000_abc'')) 86400400]))
     ''b'') = Some 0"
proof -
  let ?p = "\<lparr>pl_id = ''a'', pl_x = Some 500, pl_y = Some 500, pl_health = 100,
               pl_maxHealth = 100, pl_color = ''#00d4ff'', pl_name = ''Alice'', pl_angle = 0,
               pl_direction = 1, pl_weaponAngle = 0, pl_kills = 0, pl_score = 1,
               pl_lastActivity = 7000, pl_lastMovementUpdate = Some 7000\<rparr>"
  let ?s1 = "disconnect played ''a'' ''10000_abc'' 10000"
  let ?s2 = "cleanupExpiredTokens ?s1 86400000"
  let ?s3 = "connect ?s2 ''b'' 150 150 ''#7c3aed'' 86400200"
  let ?s4 = "setUsernameBody ?s3 ''b'' (Some ''  Alice '') (Some ''session_10000_abc'') 86400300"
  let ?s5 = "setUsernameBody ?s4 ''b'' (Some ''Alice'') (Some ''session_10000_abc'') 86400400"
  have h2: "pl_name ?p \<noteq> []" and h3: "pl_score ?p > 0" by simp_all
  have h4: "distinct (map fst (sessionTokens played))" by (simp add: played_tokens)
  have h5: "''session_10000_abc'' = generateSessionToken ''10000_abc''"
    by (simp add: generateSessionToken_def)
  have h8: "86400000 - 10000 \<le> TWENTY_FOUR_HOURS" by (simp add: TWENTY_FOUR_HOURS_def)
  have h10: "cleanUsername ''  Alice '' = pl_name ?p"
    by (simp add: cleanUsername_def trim_def isWhiteSpace_def)
  have h11: "setUsername ?s3 ''b'' (NameObject (Some ''  Alice '') (Some ''session_10000_abc''))
               86400300 = Inr ?s4"
    by (simp add: setUsername_def)
  have h12: "trim ''Alice'' \<noteq> []" by (simp add: trim_Alice)
  have h13: "setUsername ?s4 ''b'' (NameObject (Some ''Alice'') (Some ''session_10000_abc''))
               86400400 = Inr ?s5"
    by (simp add: setUsername_def)
  from token_lifecycle [OF played_alice h2 h3 h4 h5 refl refl h8 refl h10 h11 h12 h13]
  show ?thesis
    by (simp add: played_alice setUsername_def)
qed

text \<open>
  Claim C10, as amended. A \<open>setUsername\<close> whose token is in the store under another name
  leaves the token store as it was, and a later \<open>setUsername\<close> whose sanitized username
  is the bound name redeems the same token. The failed attempt gives the player the new
  name and score 0; like every \<open>setUsername\<close> with a valid username it also writes the
  entry of the score ledger for the name and the connection, saves the ledger and
  broadcasts a \<open>playerUpdate\<close>. Nothing else changes: not the player's other fields, the
  other players, the pills or the leaderboards.
\<close>

theorem mismatch_keeps_token:
  assumes "map_of (players s) sid = Some p" "trim u \<noteq> []" "tok \<noteq> []"
    and "map_of (sessionTokens s) tok = Some td" "tk_name td \<noteq> cleanUsername u"
    and "setUsername s sid (NameObject (Some u) (Some tok)) now = Inr s1"
    and "map_of (players s1) sid2 = Some p2" "trim u2 \<noteq> []" "cleanUsername u2 = tk_name td"
    and "setUsername s1 sid2 (NameObject (Some u2) (Some tok)) now2 = Inr s2"
  shows "sessionTokens s1 = sessionTokens s \<and>
         players s1 = AList.update sid (p\<lparr>pl_name := cleanUsername u, pl_score := 0\<rparr>) (players s) \<and>
         playerScores s1 = AList.update (cleanUsername u @ ''_'' @ sid)
           \<lparr>sr_name = cleanUsername u, sr_score = 0, sr_lastSeen = now\<rparr> (playerScores s) \<and>
         disk s1 = (disk s)\<lparr>file_playerScores := Some (playerScores s1)\<rparr> \<and>
         outbox s1 = outbox s @
           [(ToAll, PlayerUpdate (playerUpdateOf
              (p\<lparr>pl_name := cleanUsername u, pl_score := 0\<rparr>) (Some 0)))] \<and>
         playerCount s1 = playerCount s \<and> nextPlayerId s1 = nextPlayerId s \<and>
         pills s1 = pills s \<and> allTimeLeaderboard s1 = allTimeLeaderboard s \<and>
         dailyLeaderboard s1 = dailyLeaderboard s \<and>
         map_option pl_score (map_of (players s2) sid2) = Some (tk_score td) \<and>
         map_of (sessionTokens s2) tok = None"
proof -
  have no: "\<not> (\<exists>tok' td'. Some tok = Some tok' \<and> tok' \<noteq> [] \<and>
          map_of (sessionTokens s) tok' = Some td' \<and> tk_name td' = cleanUsername u)"
    using assms(4,5) by auto
  note f = setUsername_fresh [OF assms(1,2) no assms(6)]
  from assms(6) have s1: "s1 = setUsernameBody s sid (Some u) (Some tok) now"
    by (simp add: setUsername_def)
  have rest: "pills s1 = pills s" "allTimeLeaderboard s1 = allTimeLeaderboard s"
    "dailyLeaderboard s1 = dailyLeaderboard s"
    unfolding s1 by simp_all
  note more = setUsernameBody_rest [OF assms(1,2), of "Some tok" now, folded s1]
  have ob: "outbox s1 = outbox s @
           [(ToAll, PlayerUpdate (playerUpdateOf
              (p\<lparr>pl_name := cleanUsername u, pl_score := 0\<rparr>) (Some 0)))]"
    using setUsernameBody_valid(4) [OF assms(1,2), of "Some tok" now, folded s1]
      restoreScore_other [OF no]
    by simp
  have m: "map_of (sessionTokens s1) tok = Some td"
    using f(2) assms(4) by simp
  have n: "tk_name td = cleanUsername u2"
    using assms(9) by simp
  note r = setUsername_redeems [OF assms(7,8,3) m n assms(10)]
  from r have "map_option pl_score (map_of (players s2) sid2) = Some (tk_score td)"
    "map_of (sessionTokens s2) tok = None"
    by (simp_all add: delete_conv')
  with f rest more ob show ?thesis by simp
qed

theorem mismatch_keeps_token_witness:
  "map_of (sessionTokens reconnected) ''session_10000_abc'' =
     Some \<lparr>tk_name = ''Alice'', tk_score = 1, tk_created = 10000\<rparr> \<and>
   sessionTokens (run utcDate reconnected
      [SetUsername ''b'' (NameObject (Some ''Bob'') (Some ''session_10000_abc'')) 30000]) =
     sessionTokens reconnected \<and>
   map_option pl_score (map_of (players (run utcDate reconnected
      [SetUsername ''b'' (NameObject (Some ''Bob'') (Some ''session_10000_abc'')) 30000])) ''b'') =
     Some 0 \<and>
   map_option pl_name (map_of (players (run utcDate reconnected
      [SetUsername ''b'' (NameObject (Some ''Bob'') (Some ''session_10000_abc'')) 30000])) ''b'') =
     Some ''Bob'' \<and>
   map_option pl_score (map_of (players (run utcDate reconnected
      [SetUsername ''b'' (NameObject (Some ''Bob'') (Some ''session_10000_abc'')) 30000,
       SetUsername ''b'' (NameObject (Some ''Alice'') (Some ''session_10000_abc'')) 40000])) ''b'') =
     Some 1 \<and>
   map_of (sessionTokens (run utcDate reconnected
      [SetUsername ''b'' (NameObject (Some ''Bob'') (Some ''session_10000_abc'')) 30000,
       SetUsername ''b'' (NameObject (Some ''Alice'') (Some ''session_10000_abc'')) 40000]))
     ''session_10000_abc'' = None"
proof -
  let ?td = "\<lparr>tk_name = ''Alice'', tk_score = 1, tk_created = 10000\<rparr>"
  let ?s1 = "setUsernameBody reconnected ''b'' (Some ''Bob'') (Some ''session_10000_abc'') 30000"
  let ?s2 = "setUsernameBody ?s1 ''b'' (Some ''Alice'') (Some ''session_10000_abc'') 40000"
  from reconnected_bob obtain q where q: "map_of (players reconnected) ''b'' = Some q" ..
  have m: "map_of (sessionTokens reconnected) ''session_10000_abc'' = Some ?td"
    by (simp add: reconnected_tokens)
  have h2: "trim ''Bob'' \<noteq> []" by (simp add: trim_Bob)
  have h3: "''session_10000_abc'' \<noteq> []" by simp
  have h5: "tk_name ?td \<noteq> cleanUsername ''Bob''" by (simp add: clean_Bob)
  have h6: "setUsername reconnected ''b'' (NameObject (Some ''Bob'') (Some ''session_10000_abc''))
              30000 = Inr ?s1"
    by (simp add: setUsername_def)
  have h7: "map_of (players ?s1) ''b'' = Some (q\<lparr>pl_name := ''Bob'', pl_score := 0\<rparr>)"
    using setUsername_fresh(1) [OF q h2 _ h6] m by (simp add: clean_Bob update_conv')
  have h8: "trim ''Alice'' \<noteq> []" by (simp add: trim_Alice)
  have h9: "cleanUsername ''Alice'' = tk_name ?td" by (simp add: clean_Alice)
  have h10: "setUsername ?s1 ''b'' (NameObject (Some ''Alice'') (Some ''session_10000_abc''))
              40000 = Inr ?s2"
    by (simp add: setUsername_def)
  from mismatch_keeps_token [OF q h2 h3 m h5 h6 h7 h8 h9 h10] m
  show ?thesis
    by (simp add: setUsername_def update_conv' clean_Bob)
qed

text \<open>
  The claim as the specification states it says that only the player's score and name
  are affected. After Bob's failed attempt with Alice's token the score ledger holds an
  entry that was not there before, and one more message has been sent.
\<close>

theorem mismatch_writes_ledger:
  "map_of (playerScores reconnected) ''Bob_b'' = None \<and>
   map_of (playerScores (run utcDate reconnected
      [SetUsername ''b'' (NameObject (Some ''Bob'') (Some ''session_10000_abc'')) 30000]))
     ''Bob_b'' = Some \<lparr>sr_name = ''Bob'', sr_score = 0, sr_lastSeen = 30000\<rparr> \<and>
   length (outbox (run utcDate reconnected
      [SetUsername ''b'' (NameObject (Some ''Bob'') (Some ''session_10000_abc'')) 30000])) =
     length (outbox reconnected) + 1"
proof -
  let ?s1 = "setUsernameBody reconnected ''b'' (Some ''Bob'') (Some ''session_10000_abc'') 30000"
  from reconnected_bob obtain q where q: "map_of (players reconnected) ''b'' = Some q" ..
  have h2: "trim ''Bob'' \<noteq> []" by (simp add: trim_Bob)
  have r: "restoreScore (sessionTokens reconnected) (Some ''session_10000_abc'')
             (cleanUsername ''Bob'') = (0, sessionTokens reconnected)"
    by (simp add: restoreScore_def reconnected_tokens clean_Bob)
  note v = setUsernameBody_valid [OF q h2, of "Some ''session_10000_abc''" 30000]
  from v(3,4) r show ?thesis
    by (simp add: setUsername_def reconnected_scores clean_Bob update_conv')
qed

section \<open>Movement and collection\<close>

lemma pillLoop_miss:
  "\<forall>e\<in>set rest. \<not> inRange D px py (snd e) \<Longrightarrow> pillLoop D s pid p px py now rest = s"
  by (induction rest) auto

lemma pillLoop_hit:
  "\<forall>e\<in>set pre. \<not> inRange D px py (snd e) \<Longrightarrow> inRange D px py pill \<Longrightarrow>
   pillLoop D s pid p px py now (pre @ (k, pill) # post) = collectPill D s pid p k pill now"
  by (induction pre) auto

lemma pillLoop_cases:
  "pillLoop D s pid p px py now rest = s \<or>
   (\<exists>k pill. (k, pill) \<in> set rest \<and>
      pillLoop D s pid p px py now rest = collectPill D s pid p k pill now)"
proof (induction rest)
  case Nil
  then show ?case by simp
next
  case (Cons a rest)
  obtain k pill where a: "a = (k, pill)" by (cases a)
  show ?case
  proof (cases "inRange D px py pill")
    case True
    with a have "pillLoop D s pid p px py now (a # rest) = collectPill D s pid p k pill now"
      by simp
    with a show ?thesis by auto
  next
    case False
    with a have "pillLoop D s pid p px py now (a # rest) = pillLoop D s pid p px py now rest"
      by simp
    with Cons.IH show ?thesis by auto
  qed
qed

lemma move_dropped: "\<not> moveAccepted s sid now \<Longrightarrow> move D s sid data now = Inr s"
  by (auto simp: move_def moveAccepted_def split: option.splits)

lemma move_applied:
  "moveAccepted s sid now \<Longrightarrow> map_of (players s) sid = Some p \<Longrightarrow>
   move D s sid (Some d) now = Inr (moveBody D s sid p d now)"
  by (simp add: move_def moveAccepted_def)

lemma move_null:
  "moveAccepted s sid now \<Longrightarrow> move D s sid None now = Inl TypeError"
  by (auto simp: move_def moveAccepted_def split: option.splits)

lemma movedPlayer_fields [simp]:
  "pl_x (movedPlayer p d now) = md_x d"
  "pl_y (movedPlayer p d now) = md_y d"
  "pl_score (movedPlayer p d now) = pl_score p"
  "pl_name (movedPlayer p d now) = pl_name p"
  "pl_health (movedPlayer p d now) = pl_health p"
  "pl_lastMovementUpdate (movedPlayer p d now) = Some now"
  "pl_lastActivity (movedPlayer p d now) = now"
  by (simp_all add: movedPlayer_def Let_def split: option.splits)

lemma moveBody_eq:
  "moveBody D s sid p d now =
     (let s2 = checkPillCollection D (s\<lparr>players := AList.update sid (movedPlayer p d now) (players s)\<rparr>)
                 sid (md_x d) (md_y d) now
      in (case map_of (players s2) sid of
            None \<Rightarrow> s2
          | Some q \<Rightarrow> emit (ToOthers sid) (PlayerUpdate (playerUpdateOf q (Some (pl_score q)))) s2))"
  by (simp add: moveBody_def movedPlayer_def Let_def split: option.splits)

lemma checkPillCollection_miss:
  "\<forall>e\<in>set (pills s). \<not> inRange D px py (snd e) \<Longrightarrow> checkPillCollection D s pid px py now = s"
  by (simp add: checkPillCollection_def pillLoop_miss split: option.splits)

lemma checkPillCollection_hit:
  "map_of (players s) pid = Some p \<Longrightarrow> pills s = pre @ (k, pill) # post \<Longrightarrow>
   \<forall>e\<in>set pre. \<not> inRange D px py (snd e) \<Longrightarrow> inRange D px py pill \<Longrightarrow>
   checkPillCollection D s pid px py now = collectPill D s pid p k pill now"
  by (simp add: checkPillCollection_def pillLoop_hit)

lemma checkPillCollection_cases:
  "checkPillCollection D s pid px py now = s \<or>
   (\<exists>p k pill. map_of (players s) pid = Some p \<and> (k, pill) \<in> set (pills s) \<and>
      checkPillCollection D s pid px py now = collectPill D s pid p k pill now)"
  using pillLoop_cases [of D s pid _ px py now "pills s"]
  by (auto simp: checkPillCollection_def split: option.splits)

lemma inRange_undefined [simp]:
  "inRange D None py pill = False" "inRange D px None pill = False"
  by (simp_all add: inRange_def split: option.splits)

lemma delete_split_distinct:
  assumes "distinct (map fst (pre @ (k, v) # post))"
  shows "AList.delete k (pre @ (k, v) # post) = pre @ post"
proof -
  from assms have "k \<notin> fst ` set pre" "k \<notin> fst ` set post" by auto
  then have "AList.delete k pre = pre" "AList.delete k post = post" by simp_all
  moreover have "AList.delete k (pre @ (k, v) # post) = AList.delete k pre @ AList.delete k post"
    by (simp add: AList.delete_eq)
  ultimately show ?thesis by simp
qed

text \<open>What an accepted move leaves at the mover's key, and what it does to other keys.\<close>

lemma moveBody_player:
  "\<exists>q. map_of (players (moveBody D s sid p d now)) sid = Some q \<and>
       pl_lastMovementUpdate q = Some now \<and> pl_x q = md_x d \<and> pl_y q = md_y d \<and>
       pl_health q = pl_health p \<and> pl_name q = pl_name p"
proof -
  let ?s1 = "s\<lparr>players := AList.update sid (movedPlayer p d now) (players s)\<rparr>"
  have p1: "map_of (players ?s1) sid = Some (movedPlayer p d now)"
    by (simp add: update_conv')
  from checkPillCollection_cases [of D ?s1 sid "md_x d" "md_y d" now]
  show ?thesis
  proof
    assume "checkPillCollection D ?s1 sid (md_x d) (md_y d) now = ?s1"
    then show ?thesis
      by (simp add: moveBody_eq update_conv')
  next
    assume "\<exists>p' k pill. map_of (players ?s1) sid = Some p' \<and> (k, pill) \<in> set (pills ?s1) \<and>
      checkPillCollection D ?s1 sid (md_x d) (md_y d) now = collectPill D ?s1 sid p' k pill now"
    then obtain p' k pill where
      "map_of (players ?s1) sid = Some p'"
      "checkPillCollection D ?s1 sid (md_x d) (md_y d) now = collectPill D ?s1 sid p' k pill now"
      by blast
    with p1 have "checkPillCollection D ?s1 sid (md_x d) (md_y d) now =
        collectPill D ?s1 sid (movedPlayer p d now) k pill now"
      by simp
    then show ?thesis
      by (simp add: moveBody_eq update_conv')
  qed
qed

lemma moveBody_others:
  "sid' \<noteq> sid \<Longrightarrow> map_of (players (moveBody D s sid p d now)) sid' = map_of (players s) sid'"
proof -
  assume ne: "sid' \<noteq> sid"
  let ?s1 = "s\<lparr>players := AList.update sid (movedPlayer p d now) (players s)\<rparr>"
  from checkPillCollection_cases [of D ?s1 sid "md_x d" "md_y d" now]
  show ?thesis
  proof
    assume "checkPillCollection D ?s1 sid (md_x d) (md_y d) now = ?s1"
    with ne show ?thesis
      by (simp add: moveBody_eq update_conv' split: option.splits)
  next
    assume "\<exists>p' k pill. map_of (players ?s1) sid = Some p' \<and> (k, pill) \<in> set (pills ?s1) \<and>
      checkPillCollection D ?s1 sid (md_x d) (md_y d) now = collectPill D ?s1 sid p' k pill now"
    then obtain p' k pill where
      "checkPillCollection D ?s1 sid (md_x d) (md_y d) now = collectPill D ?s1 sid p' k pill now"
      by blast
    with ne show ?thesis
      by (simp add: moveBody_eq update_conv' split: option.splits)
  qed
qed

lemma players_disconnect:
  "players (disconnect s sid stamp now) = AList.delete sid (players s)"
  by (simp add: disconnect_def Let_def map_of_eq_None_iff split: option.splits)

lemma players_connect:
  "sid' \<noteq> sid \<Longrightarrow> map_of (players (connect s sid' x y c now)) sid = map_of (players s) sid"
  by (simp add: connect_def Let_def update_conv')

lemma lastMove_setUsernameBody:
  "lastMove (setUsernameBody s sid' u t now) sid = lastMove s sid"
  by (auto simp: lastMove_def setUsernameBody_def Let_def update_conv'
      split: option.splits prod.splits)

lemma lastMove_respawnTimeout:
  "lastMove (respawnTimeout s sid' x y) sid = lastMove s sid"
  by (auto simp: lastMove_def respawnTimeout_def Let_def update_conv' split: option.splits)

lemma lastMove_move_other:
  assumes "move D s sid' data now = Inr s'" "sid' \<noteq> sid"
  shows "lastMove s' sid = lastMove s sid"
proof (cases "moveAccepted s sid' now")
  case False
  with assms show ?thesis by (simp add: move_dropped)
next
  case True
  then obtain p where p: "map_of (players s) sid' = Some p"
    by (auto simp: moveAccepted_def split: option.splits)
  from True assms(1) obtain d where d: "data = Some d"
    by (cases data) (simp_all add: move_null)
  from move_applied [OF True p, of D d] assms(1) d
  have "s' = moveBody D s sid' p d now" by simp
  with moveBody_others [of sid sid' D s p d now] assms(2) show ?thesis
    by (simp add: lastMove_def)
qed

lemma lastMove_move_accepted:
  assumes "move D s sid data now = Inr s'" "moveAccepted s sid now"
  shows "lastMove s' sid = Some (Some now)"
proof -
  from assms(2) obtain p where p: "map_of (players s) sid = Some p"
    by (auto simp: moveAccepted_def split: option.splits)
  from assms obtain d where d: "data = Some d"
    by (cases data) (simp_all add: move_null)
  from move_applied [OF assms(2) p, of D d] assms(1) d
  have "s' = moveBody D s sid p d now" by simp
  with moveBody_player [of D s sid p d now] show ?thesis
    by (auto simp: lastMove_def)
qed

lemma moveAccepted_lastMove:
  "moveAccepted s sid now \<Longrightarrow> \<exists>L. lastMove s sid = Some L \<and> now - orZero L \<ge> 16"
  by (auto simp: moveAccepted_def lastMove_def split: option.splits)

lemma step_keeps_lastMove:
  assumes "step D s e = Inr s'"
    and "\<forall>x y c t. e \<noteq> Connect sid x y c t"
    and "\<forall>d now. e = Move sid d now \<longrightarrow> \<not> moveAccepted s sid now"
  shows "lastMove s' sid = None \<or> lastMove s' sid = lastMove s sid"
proof (cases e)
  case (Connect sid' x y c t)
  with assms(2) have "sid' \<noteq> sid" by auto
  with Connect assms(1) players_connect [of sid' sid s x y c t] show ?thesis
    by (auto simp: lastMove_def)
next
  case (SetUsername sid' data now)
  with assms(1) lastMove_setUsernameBody [of s sid' _ _ now sid] show ?thesis
    by (auto simp: setUsername_def split: username_data.splits)
next
  case (Move sid' data now)
  show ?thesis
  proof (cases "sid' = sid")
    case True
    with Move assms(3) have "\<not> moveAccepted s sid now" by simp
    with Move True assms(1) show ?thesis by (simp add: move_dropped)
  next
    case False
    with Move assms(1) lastMove_move_other [of D s sid' data now s' sid] show ?thesis by simp
  qed
next
  case (RespawnTimeout sid' x y)
  with assms(1) lastMove_respawnTimeout [of s sid' x y sid] show ?thesis by auto
next
  case (Disconnect sid' stamp now)
  with assms(1) have "players s' = AList.delete sid' (players s)"
    by (auto simp: players_disconnect)
  then show ?thesis
    by (cases "sid' = sid") (simp_all add: lastMove_def delete_conv')
next
  case (GeneratePill stamp x y now)
  with assms(1) show ?thesis by (auto simp: lastMove_def)
next
  case (DailyTick now)
  with assms(1) show ?thesis by (auto simp: lastMove_def)
next
  case (CleanupTick now)
  with assms(1) show ?thesis by (auto simp: lastMove_def)
next
  case SaveTick
  with assms(1) show ?thesis by (auto simp: lastMove_def)
qed

lemma acceptedMoves_gap:
  "\<forall>x y c t. Connect sid x y c t \<notin> set evs \<Longrightarrow>
   sorted_wrt (\<lambda>a b. b - a \<ge> 16) (acceptedMoves D s sid evs) \<and>
   (\<forall>t\<in>set (acceptedMoves D s sid evs). \<exists>L. lastMove s sid = Some L \<and> t - orZero L \<ge> 16)"
proof (induction evs arbitrary: s)
  case Nil
  then show ?case by simp
next
  case (Cons e es)
  show ?case
  proof (cases "step D s e")
    case (Inl err)
    then show ?thesis by simp
  next
    case (Inr s')
    from Cons.prems have "\<forall>x y c t. Connect sid x y c t \<notin> set es" by simp
    from Cons.IH [OF this, of s']
    have srt: "sorted_wrt (\<lambda>a b. b - a \<ge> 16) (acceptedMoves D s' sid es)"
      and low: "\<forall>t\<in>set (acceptedMoves D s' sid es).
                  \<exists>L. lastMove s' sid = Some L \<and> t - orZero L \<ge> 16"
      by simp_all
    show ?thesis
    proof (cases "\<exists>d now. e = Move sid d now \<and> moveAccepted s sid now")
      case True
      then obtain d now where e: "e = Move sid d now" and acc: "moveAccepted s sid now"
        by blast
      from e Inr have mv: "move D s sid d now = Inr s'" by simp
      from lastMove_move_accepted [OF mv acc] low
      have after: "\<forall>t\<in>set (acceptedMoves D s' sid es). t - now \<ge> 16"
        by (auto simp: orZero_def)
      from moveAccepted_lastMove [OF acc]
      obtain L where L: "lastMove s sid = Some L" "now - orZero L \<ge> 16" by blast
      have eq: "acceptedMoves D s sid (e # es) = now # acceptedMoves D s' sid es"
        using e Inr acc by simp
      from after L have "\<forall>t\<in>set (now # acceptedMoves D s' sid es).
          \<exists>L. lastMove s sid = Some L \<and> t - orZero L \<ge> 16"
        by fastforce
      with srt after eq show ?thesis by simp
    next
      case False
      then have eq: "acceptedMoves D s sid (e # es) = acceptedMoves D s' sid es"
        using Inr by (auto split: event.splits)
      from Cons.prems have nc: "\<forall>x y c t. e \<noteq> Connect sid x y c t" by auto
      from False have nm: "\<forall>d now. e = Move sid d now \<longrightarrow> \<not> moveAccepted s sid now" by blast
      from step_keeps_lastMove [OF Inr nc nm] low
      have "\<forall>t\<in>set (acceptedMoves D s' sid es).
                  \<exists>L. lastMove s sid = Some L \<and> t - orZero L \<ge> 16"
        by auto
      with srt eq show ?thesis by simp
    qed
  qed
qed

lemma played_pills: "pills played = []"
  by (simp add: played_def scenarioPlay_def scenario_simps)

lemma played_daily:
  "dailyLeaderboard played =
     \<lparr>currentDay = ''day 0'',
      topScores = [(''Alice'', \<lparr>de_name = ''Alice'', de_score = 1, de_timestamp = 7000\<rparr>)],
      resetTime = 86400000, timeRemaining = 86400000\<rparr>"
  by (simp add: played_def scenarioPlay_def scenario_simps updateDailyLeaderboard_def
      saveDailyLeaderboard_def updateAllTimeLeaderboard_def saveAllTimeLeaderboard_def)

lemma twoPills_pills:
  "pills twoPills =
     [(''pill_5000_0.1'', \<lparr>pill_id = ''pill_5000_0.1'', pill_x = 500, pill_y = 500,
         pill_points = 1, pill_spawnTime = 5000\<rparr>),
      (''pill_5500_0.2'', \<lparr>pill_id = ''pill_5500_0.2'', pill_x = 500, pill_y = 500,
         pill_points = 1, pill_spawnTime = 5500\<rparr>),
      (''pill_6000_0.3'', \<lparr>pill_id = ''pill_6000_0.3'', pill_x = 900, pill_y = 900,
         pill_points = 1, pill_spawnTime = 6000\<rparr>)]"
  by (simp add: twoPills_def scenario_simps)

lemma twoPills_alice:
  "map_of (players twoPills) ''a'' =
     Some \<lparr>pl_id = ''a'', pl_x = Some 100, pl_y = Some 100, pl_health = 100,
            pl_maxHealth = 100, pl_color = ''#00d4ff'', pl_name = ''Alice'', pl_angle = 0,
            pl_direction = 1, pl_weaponAngle = 0, pl_kills = 0, pl_score = 0,
            pl_lastActivity = 1000, pl_lastMovementUpdate = None\<rparr>"
  by (simp add: twoPills_def scenario_simps)

lemma run_move_applied:
  "moveAccepted s sid now \<Longrightarrow> map_of (players s) sid = Some p \<Longrightarrow>
   run D s [Move sid (Some d) now] = moveBody D s sid p d now"
  by (simp add: move_applied)

lemma run_move_dropped:
  "\<not> moveAccepted s sid now \<Longrightarrow> run D s [Move sid data now] = s"
  by (simp add: move_dropped)

lemma step_pills_distinct:
  assumes "step D s e = Inr s'" "distinct (map fst (pills s))"
  shows "distinct (map fst (pills s'))"
proof (cases e)
  case (Move sid data now)
  show ?thesis
  proof (cases "moveAccepted s sid now")
    case False
    with Move assms show ?thesis by (simp add: move_dropped)
  next
    case True
    then obtain p where p: "map_of (players s) sid = Some p"
      by (auto simp: moveAccepted_def split: option.splits)
    from True Move assms(1) obtain d where d: "data = Some d"
      by (cases data) (simp_all add: move_null)
    let ?s1 = "s\<lparr>players := AList.update sid (movedPlayer p d now) (players s)\<rparr>"
    from move_applied [OF True p, of D d] Move assms(1) d
    have "s' = moveBody D s sid p d now" by simp
    then have ps: "pills s' = pills (checkPillCollection D ?s1 sid (md_x d) (md_y d) now)"
      by (simp add: moveBody_eq Let_def split: option.splits)
    from checkPillCollection_cases [of D ?s1 sid "md_x d" "md_y d" now] ps assms(2)
    show ?thesis
      by (auto simp: distinct_delete)
  qed
next
  case (SetUsername sid data now)
  with assms setUsername_fields [of s sid data now s'] show ?thesis by simp
next
  case (GeneratePill stamp x y now)
  with assms show ?thesis
    by (auto simp: generatePill_def Let_def distinct_update)
qed (use assms in auto)

lemma run_pills_distinct:
  "distinct (map fst (pills s)) \<Longrightarrow> distinct (map fst (pills (run D s evs)))"
proof (induction evs arbitrary: s)
  case Nil
  then show ?case by simp
next
  case (Cons e evs)
  show ?case
  proof (cases "step D s e")
    case (Inl err)
    with Cons.prems show ?thesis by simp
  next
    case (Inr s')
    with Cons.prems have "distinct (map fst (pills s'))"
      by (simp add: step_pills_distinct)
    with Cons.IH Inr show ?thesis by simp
  qed
qed

lemma reachable_pills_distinct:
  "distinct (map fst (pills (run D (initialState D t0) evs)))"
  by (rule run_pills_distinct)
    (simp add: initialState_def initializeDailyReset_def updateTimeRemaining_def)

text \<open>
  Claim C3. A move is accepted only if the player exists, is alive and at least 16 ms
  have passed since the player's last accepted move; a move that is not accepted leaves
  the whole state as it was (nothing is queued), an accepted one stamps the time of the
  move. So, within the life of one connection (the run opens no connection under the
  same id again), the times of the moves accepted in a run are at least 16 ms apart, each
  from every earlier one.
\<close>

theorem move_rate_limit:
  "(\<not> moveAccepted s sid now \<longrightarrow> move D s sid data now = Inr s) \<and>
   (\<forall>p. moveAccepted s sid now \<and> map_of (players s) sid = Some p \<longrightarrow>
      now - orZero (pl_lastMovementUpdate p) \<ge> 16 \<and>
      (\<exists>s' p'. move D s sid (Some d) now = Inr s' \<and> map_of (players s') sid = Some p' \<and>
         pl_lastMovementUpdate p' = Some now \<and> pl_x p' = md_x d \<and> pl_y p' = md_y d)) \<and>
   ((\<forall>x y c t. Connect sid x y c t \<notin> set evs) \<longrightarrow>
      sorted_wrt (\<lambda>t1 t2. t2 - t1 \<ge> 16) (acceptedMoves D s sid evs))"
proof (intro conjI allI impI)
  assume "\<not> moveAccepted s sid now"
  then show "move D s sid data now = Inr s" by (rule move_dropped)
next
  fix p
  assume a: "moveAccepted s sid now \<and> map_of (players s) sid = Some p"
  then show "now - orZero (pl_lastMovementUpdate p) \<ge> 16"
    by (auto simp: moveAccepted_def)
next
  fix p
  assume a: "moveAccepted s sid now \<and> map_of (players s) sid = Some p"
  then have "move D s sid (Some d) now = Inr (moveBody D s sid p d now)"
    by (simp add: move_applied)
  with moveBody_player [of D s sid p d now]
  show "\<exists>s' p'. move D s sid (Some d) now = Inr s' \<and> map_of (players s') sid = Some p' \<and>
         pl_lastMovementUpdate p' = Some now \<and> pl_x p' = md_x d \<and> pl_y p' = md_y d"
    by auto
next
  assume "\<forall>x y c t. Connect sid x y c t \<notin> set evs"
  from acceptedMoves_gap [OF this, of D s]
  show "sorted_wrt (\<lambda>t1 t2. t2 - t1 \<ge> 16) (acceptedMoves D s sid evs)" by simp
qed

theorem move_rate_limit_witness:
  "\<not> moveAccepted played ''a'' 7010 \<and>
   move utcDate played ''a'' (Some (moveTo 510 500)) 7010 = Inr played \<and>
   moveAccepted played ''a'' 7016 \<and>
   (\<exists>s' p'. move utcDate played ''a'' (Some (moveTo 520 500)) 7016 = Inr s' \<and>
      map_of (players s') ''a'' = Some p' \<and> pl_lastMovementUpdate p' = Some 7016 \<and>
      pl_x p' = Some 520 \<and> pl_y p' = Some 500) \<and>
   acceptedMoves utcDate played ''a''
     [Move ''a'' (Some (moveTo 510 500)) 7010, Move ''a'' (Some (moveTo 520 500)) 7016,
      Move ''a'' (Some (moveTo 530 500)) 7020, Move ''a'' (Some (moveTo 540 500)) 7032] =
     [7016, 7032] \<and>
   sorted_wrt (\<lambda>t1 t2. t2 - t1 \<ge> 16)
     (acceptedMoves utcDate played ''a''
       [Move ''a'' (Some (moveTo 510 500)) 7010, Move ''a'' (Some (moveTo 520 500)) 7016,
        Move ''a'' (Some (moveTo 530 500)) 7020, Move ''a'' (Some (moveTo 540 500)) 7032])"
proof -
  let ?evs = "[Move ''a'' (Some (moveTo 510 500)) 7010, Move ''a'' (Some (moveTo 520 500)) 7016,
      Move ''a'' (Some (moveTo 530 500)) 7020, Move ''a'' (Some (moveTo 540 500)) 7032]"
  have n1: "\<not> moveAccepted played ''a'' 7010"
    by (simp add: moveAccepted_def played_players orZero_def)
  have a2: "moveAccepted played ''a'' 7016"
    by (simp add: moveAccepted_def played_players orZero_def)
  have nc: "\<forall>x y c t. Connect ''a'' x y c t \<notin> set ?evs"
    by simp
  have ev: "acceptedMoves utcDate played ''a'' ?evs = [7016, 7032]"
    by (simp add: move_def moveBody_def checkPillCollection_def moveAccepted_def orZero_def
        played_players played_pills Let_def emit_def moveTo_def playerUpdateOf_def)
  from move_rate_limit [of played "''a''" 7010 utcDate "Some (moveTo 510 500)" "moveTo 510 500" ?evs]
    n1 nc
  have "move utcDate played ''a'' (Some (moveTo 510 500)) 7010 = Inr played \<and>
        sorted_wrt (\<lambda>t1 t2. t2 - t1 \<ge> 16) (acceptedMoves utcDate played ''a'' ?evs)"
    by blast
  moreover
  from move_rate_limit [of played "''a''" 7016 utcDate "Some (moveTo 520 500)" "moveTo 520 500" ?evs]
    a2 played_alice
  have "\<exists>s' p'. move utcDate played ''a'' (Some (moveTo 520 500)) 7016 = Inr s' \<and>
      map_of (players s') ''a'' = Some p' \<and> pl_lastMovementUpdate p' = Some 7016 \<and>
      pl_x p' = Some 520 \<and> pl_y p' = Some 500"
    by (simp add: moveTo_def)
  ultimately show ?thesis using n1 a2 ev by simp
qed

text \<open>
  Claim C5. An accepted move collects at most one pill. The ids of the pool are
  distinct, as they are in every state the server reaches (\<open>reachable_pills_distinct\<close>). When
  the pool, in its order, has a first pill whose distance from the new position, as the
  host computes it in doubles, is at most \<open>PLAYER_RADIUS + PILL_SIZE / 2\<close>, exactly that
  pill leaves the pool,
  every other pill stays (also one at the same point), and the score grows by the points
  of that pill; when no pill is within range, pool and score stay as they are.
\<close>

theorem move_collects_one:
  assumes "moveAccepted s sid now" "map_of (players s) sid = Some p"
    and "distinct (map fst (pills s))"
    and "move D s sid (Some d) now = Inr s'"
  shows "(\<forall>pre k pill post.
            pills s = pre @ (k, pill) # post \<and>
            (\<forall>e\<in>set pre. \<not> inRange D (md_x d) (md_y d) (snd e)) \<and>
            inRange D (md_x d) (md_y d) pill \<longrightarrow>
          pills s' = pre @ post \<and>
          map_option pl_score (map_of (players s') sid) = Some (pl_score p + pill_points pill)) \<and>
         ((\<forall>e\<in>set (pills s). \<not> inRange D (md_x d) (md_y d) (snd e)) \<longrightarrow>
          pills s' = pills s \<and>
          map_option pl_score (map_of (players s') sid) = Some (pl_score p)) \<and>
         length (pills s) \<le> length (pills s') + 1"
proof -
  let ?s1 = "s\<lparr>players := AList.update sid (movedPlayer p d now) (players s)\<rparr>"
  let ?c = "checkPillCollection D ?s1 sid (md_x d) (md_y d) now"
  from move_applied [OF assms(1,2), of D d] assms(4)
  have s': "s' = moveBody D s sid p d now" by simp
  have pills': "pills s' = pills ?c" and players': "players s' = players ?c"
    unfolding s' by (simp_all add: moveBody_eq Let_def split: option.splits)
  have p1: "map_of (players ?s1) sid = Some (movedPlayer p d now)"
    by (simp add: update_conv')
  have hit: "pills s' = pre @ post \<and>
          map_option pl_score (map_of (players s') sid) = Some (pl_score p + pill_points pill)"
    if "pills s = pre @ (k, pill) # post"
      "\<forall>e\<in>set pre. \<not> inRange D (md_x d) (md_y d) (snd e)"
      "inRange D (md_x d) (md_y d) pill" for pre k pill post
  proof -
    from that(1) have "pills ?s1 = pre @ (k, pill) # post" by simp
    from checkPillCollection_hit [OF p1 this that(2,3), of now]
    have c: "?c = collectPill D ?s1 sid (movedPlayer p d now) k pill now" .
    from assms(3) that(1) have "AList.delete k (pills s) = pre @ post"
      by (simp add: delete_split_distinct)
    with c pills' players' show ?thesis
      by (simp add: update_conv')
  qed
  have miss: "pills s' = pills s \<and>
          map_option pl_score (map_of (players s') sid) = Some (pl_score p)"
    if "\<forall>e\<in>set (pills s). \<not> inRange D (md_x d) (md_y d) (snd e)"
  proof -
    from that have "\<forall>e\<in>set (pills ?s1). \<not> inRange D (md_x d) (md_y d) (snd e)" by simp
    from checkPillCollection_miss [OF this, of sid now]
    have "?c = ?s1" .
    with pills' players' show ?thesis
      by (simp add: update_conv')
  qed
  have "length (pills s) \<le> length (pills s') + 1"
  proof -
    from checkPillCollection_cases [of D ?s1 sid "md_x d" "md_y d" now]
    show ?thesis
    proof
      assume "?c = ?s1"
      with pills' show ?thesis by simp
    next
      assume "\<exists>q k pill. map_of (players ?s1) sid = Some q \<and> (k, pill) \<in> set (pills ?s1) \<and>
        ?c = collectPill D ?s1 sid q k pill now"
      then obtain q k pill where kp: "(k, pill) \<in> set (pills s)"
        and c: "?c = collectPill D ?s1 sid q k pill now"
        by auto
      from kp obtain pre post where sp: "pills s = pre @ (k, pill) # post"
        by (auto simp: in_set_conv_decomp)
      with assms(3) have "AList.delete k (pills s) = pre @ post"
        by (simp add: delete_split_distinct)
      with c pills' sp show ?thesis by simp
    qed
  qed
  with hit miss show ?thesis by blast
qed

theorem move_collects_one_witness:
  "moveAccepted twoPills ''a'' 7000 \<and>
   inRange utcDate (Some 500) (Some 500) \<lparr>pill_id = ''pill_5000_0.1'', pill_x = 500, pill_y = 500,
         pill_points = 1, pill_spawnTime = 5000\<rparr> \<and>
   inRange utcDate (Some 500) (Some 500) \<lparr>pill_id = ''pill_5500_0.2'', pill_x = 500, pill_y = 500,
         pill_points = 1, pill_spawnTime = 5500\<rparr> \<and>
   pills (run utcDate twoPills [Move ''a'' (Some (moveTo 500 500)) 7000]) =
     [(''pill_5500_0.2'', \<lparr>pill_id = ''pill_5500_0.2'', pill_x = 500, pill_y = 500,
         pill_points = 1, pill_spawnTime = 5500\<rparr>),
      (''pill_6000_0.3'', \<lparr>pill_id = ''pill_6000_0.3'', pill_x = 900, pill_y = 900,
         pill_points = 1, pill_spawnTime = 6000\<rparr>)] \<and>
   map_option pl_score (map_of (players twoPills) ''a'') = Some 0 \<and>
   map_option pl_score
     (map_of (players (run utcDate twoPills [Move ''a'' (Some (moveTo 500 500)) 7000])) ''a'') =
     Some 1"
proof -
  let ?s' = "run utcDate twoPills [Move ''a'' (Some (moveTo 500 500)) 7000]"
  have acc: "moveAccepted twoPills ''a'' 7000"
    by (simp add: moveAccepted_def twoPills_alice orZero_def)
  have dist: "distinct (map fst (pills twoPills))"
    by (simp add: twoPills_pills)
  have mv: "move utcDate twoPills ''a'' (Some (moveTo 500 500)) 7000 = Inr ?s'"
    using move_applied [OF acc twoPills_alice, of utcDate "moveTo 500 500"] by simp
  have r: "inRange utcDate (md_x (moveTo 500 500)) (md_y (moveTo 500 500))
             \<lparr>pill_id = ''pill_5000_0.1'', pill_x = 500, pill_y = 500,
              pill_points = 1, pill_spawnTime = 5000\<rparr>"
    by (simp add: moveTo_def inRange_iff utcDate_def)
  have r': "inRange utcDate (Some 500) (Some 500) \<lparr>pill_id = ''pill_5500_0.2'', pill_x = 500, pill_y = 500,
         pill_points = 1, pill_spawnTime = 5500\<rparr>"
    by (simp add: inRange_iff utcDate_def)
  have sp: "pills twoPills = [] @
      (''pill_5000_0.1'', \<lparr>pill_id = ''pill_5000_0.1'', pill_x = 500, pill_y = 500,
         pill_points = 1, pill_spawnTime = 5000\<rparr>) #
      [(''pill_5500_0.2'', \<lparr>pill_id = ''pill_5500_0.2'', pill_x = 500, pill_y = 500,
         pill_points = 1, pill_spawnTime = 5500\<rparr>),
       (''pill_6000_0.3'', \<lparr>pill_id = ''pill_6000_0.3'', pill_x = 900, pill_y = 900,
         pill_points = 1, pill_spawnTime = 6000\<rparr>)]"
    by (simp add: twoPills_pills)
  have pre: "\<forall>e\<in>set []. \<not> inRange utcDate (md_x (moveTo 500 500)) (md_y (moveTo 500 500)) (snd e)"
    by simp
  from move_collects_one [OF acc twoPills_alice dist mv, THEN conjunct1, rule_format,
      OF conjI [OF sp conjI [OF pre r]]]
  have "pills ?s' =
     [(''pill_5500_0.2'', \<lparr>pill_id = ''pill_5500_0.2'', pill_x = 500, pill_y = 500,
         pill_points = 1, pill_spawnTime = 5500\<rparr>),
      (''pill_6000_0.3'', \<lparr>pill_id = ''pill_6000_0.3'', pill_x = 900, pill_y = 900,
         pill_points = 1, pill_spawnTime = 6000\<rparr>)] \<and>
     map_option pl_score (map_of (players ?s') ''a'') = Some 1"
    by simp
  with acc r r' show ?thesis
    by (simp add: twoPills_alice moveTo_def)
qed

text \<open>
  Claim C9, as amended. A \<open>setUsername\<close> whose payload is a string that is empty or only
  white space, or an object whose username is missing, empty or only white space, changes
  nothing, sends nothing and does not throw. A \<open>move\<close> whose payload is an object does not
  throw, whatever fields are missing. It is subject to the throttle like
  any move: when it is accepted and a coordinate is missing, the missing coordinate is
  stored as it came (undefined), \<open>lastActivity\<close> and \<open>lastMovementUpdate\<close> are set to the
  time of the move, no pill is collected, and the only message is the update sent to the
  other connections.
\<close>

theorem malformed_payloads:
  "(u = None \<or> (\<exists>str. u = Some str \<and> trim str = []) \<longrightarrow>
      setUsername s sid (NameObject u t) now = Inr s) \<and>
   (trim name = [] \<longrightarrow> setUsername s sid (NameString name) now = Inr s) \<and>
   (\<exists>s'. move D s sid (Some d) now = Inr s') \<and>
   (\<not> moveAccepted s sid now \<longrightarrow> move D s sid (Some d) now = Inr s) \<and>
   (\<forall>p. moveAccepted s sid now \<and> map_of (players s) sid = Some p \<and>
        (md_x d = None \<or> md_y d = None) \<longrightarrow>
      (\<exists>s' p'. move D s sid (Some d) now = Inr s' \<and>
         map_of (players s') sid = Some p' \<and>
         pl_x p' = md_x d \<and> pl_y p' = md_y d \<and>
         pl_lastActivity p' = now \<and> pl_lastMovementUpdate p' = Some now \<and>
         pl_score p' = pl_score p \<and> pills s' = pills s \<and>
         outbox s' = outbox s @
           [(ToOthers sid, PlayerUpdate (playerUpdateOf p' (Some (pl_score p'))))]))"
proof (intro conjI allI impI)
  assume "u = None \<or> (\<exists>str. u = Some str \<and> trim str = [])"
  then have "map_of (players s) sid = None \<or> u = None \<or> trim (the u) = []" by auto
  then show "setUsername s sid (NameObject u t) now = Inr s"
    by (simp add: setUsername_def setUsernameBody_invalid)
next
  assume "trim name = []"
  then have "map_of (players s) sid = None \<or> Some name = None \<or> trim (the (Some name)) = []"
    by simp
  then show "setUsername s sid (NameString name) now = Inr s"
    by (simp add: setUsername_def setUsernameBody_invalid)
next
  show "\<exists>s'. move D s sid (Some d) now = Inr s'"
    by (simp add: move_def split: option.splits)
next
  assume "\<not> moveAccepted s sid now"
  then show "move D s sid (Some d) now = Inr s" by (rule move_dropped)
next
  fix p
  assume a: "moveAccepted s sid now \<and> map_of (players s) sid = Some p \<and>
        (md_x d = None \<or> md_y d = None)"
  let ?q = "movedPlayer p d now"
  let ?s1 = "s\<lparr>players := AList.update sid ?q (players s)\<rparr>"
  from a have "\<forall>e\<in>set (pills ?s1). \<not> inRange D (md_x d) (md_y d) (snd e)" by auto
  from checkPillCollection_miss [OF this, of sid now]
  have c: "checkPillCollection D ?s1 sid (md_x d) (md_y d) now = ?s1" .
  from a have mv: "move D s sid (Some d) now = Inr (moveBody D s sid p d now)"
    by (simp add: move_applied)
  have "map_of (players (moveBody D s sid p d now)) sid = Some ?q"
    "pills (moveBody D s sid p d now) = pills s"
    "outbox (moveBody D s sid p d now) = outbox s @
           [(ToOthers sid, PlayerUpdate (playerUpdateOf ?q (Some (pl_score ?q))))]"
    using c by (simp_all add: moveBody_eq update_conv')
  with mv show "\<exists>s' p'. move D s sid (Some d) now = Inr s' \<and>
         map_of (players s') sid = Some p' \<and>
         pl_x p' = md_x d \<and> pl_y p' = md_y d \<and>
         pl_lastActivity p' = now \<and> pl_lastMovementUpdate p' = Some now \<and>
         pl_score p' = pl_score p \<and> pills s' = pills s \<and>
         outbox s' = outbox s @
           [(ToOthers sid, PlayerUpdate (playerUpdateOf p' (Some (pl_score p'))))]"
    by simp
qed

theorem malformed_payloads_witness:
  "trim ''   '' = [] \<and> trim [CHR 0xA0, CHR 0x09] = [] \<and>
   setUsername played ''a'' (NameObject (Some ''   '') None) 8000 = Inr played \<and>
   setUsername played ''a'' (NameString [CHR 0xA0, CHR 0x09]) 8000 = Inr played \<and>
   setUsername played ''a'' (NameObject None None) 8000 = Inr played \<and>
   setUsername played ''a'' (NameString []) 8000 = Inr played \<and>
   \<not> moveAccepted played ''a'' 7010 \<and>
   move utcDate played ''a'' (Some (moveWithoutX 300)) 7010 = Inr played \<and>
   moveAccepted played ''a'' 8000 \<and>
   (\<exists>s' p'. move utcDate played ''a'' (Some (moveWithoutX 300)) 8000 = Inr s' \<and>
      map_of (players s') ''a'' = Some p' \<and> pl_x p' = None \<and> pl_y p' = Some 300 \<and>
      pl_lastActivity p' = 8000 \<and> pl_lastMovementUpdate p' = Some 8000 \<and>
      pl_score p' = 1 \<and> pills s' = pills played \<and>
      outbox s' = outbox played @
        [(ToOthers ''a'', PlayerUpdate (playerUpdateOf p' (Some (pl_score p'))))])"
proof -
  have ws: "trim ''   '' = []"
    by (simp add: trim_def isWhiteSpace_def)
  have n1: "\<not> moveAccepted played ''a'' 7010"
    by (simp add: moveAccepted_def played_players orZero_def)
  have acc: "moveAccepted played ''a'' 8000"
    by (simp add: moveAccepted_def played_players orZero_def)
  have nb: "trim [CHR 0xA0, CHR 0x09] = []"
    by (simp add: trim_def isWhiteSpace_def)
  from malformed_payloads [of "Some ''   ''" played "''a''" None 8000 "[]" utcDate "moveWithoutX 300"] ws
  have a: "setUsername played ''a'' (NameObject (Some ''   '') None) 8000 = Inr played"
    "setUsername played ''a'' (NameString []) 8000 = Inr played"
    by simp_all
  from malformed_payloads [of None played "''a''" None 8000 "[CHR 0xA0, CHR 0x09]" utcDate
      "moveWithoutX 300"] nb
  have a': "setUsername played ''a'' (NameString [CHR 0xA0, CHR 0x09]) 8000 = Inr played"
    by simp
  from malformed_payloads [of None played "''a''" None 8000 "[]" utcDate "moveWithoutX 300"]
  have b: "setUsername played ''a'' (NameObject None None) 8000 = Inr played"
    by simp
  from malformed_payloads [of None played "''a''" None 7010 "[]" utcDate "moveWithoutX 300"] n1
  have c: "move utcDate played ''a'' (Some (moveWithoutX 300)) 7010 = Inr played"
    by simp
  from malformed_payloads [of None played "''a''" None 8000 "[]" utcDate "moveWithoutX 300"] acc
    played_alice
  have d: "\<exists>s' p'. move utcDate played ''a'' (Some (moveWithoutX 300)) 8000 = Inr s' \<and>
      map_of (players s') ''a'' = Some p' \<and> pl_x p' = None \<and> pl_y p' = Some 300 \<and>
      pl_lastActivity p' = 8000 \<and> pl_lastMovementUpdate p' = Some 8000 \<and>
      pl_score p' = 1 \<and> pills s' = pills played \<and>
      outbox s' = outbox played @
        [(ToOthers ''a'', PlayerUpdate (playerUpdateOf p' (Some (pl_score p'))))]"
    by (simp add: moveWithoutX_def)
  from ws nb a a' b c d n1 acc show ?thesis by blast
qed

text \<open>
  The claim as the specification states it asks that a move without a coordinate leaves
  the stored state unchanged or gives it a defined default. Alice stands at x = 500; her
  move without \<open>x\<close> is accepted and her stored \<open>x\<close> becomes undefined.
\<close>

theorem move_without_x_is_applied:
  "map_option pl_x (map_of (players played) ''a'') = Some (Some 500) \<and>
   map_option pl_x
     (map_of (players (run utcDate played [Move ''a'' (Some (moveWithoutX 300)) 8000])) ''a'') =
     Some None \<and>
   map_option pl_lastMovementUpdate
     (map_of (players (run utcDate played [Move ''a'' (Some (moveWithoutX 300)) 8000])) ''a'') =
     Some (Some 8000)"
proof -
  have acc: "moveAccepted played ''a'' 8000"
    by (simp add: moveAccepted_def played_players orZero_def)
  from moveBody_player [of utcDate played "''a''" _ "moveWithoutX 300" 8000]
    run_move_applied [OF acc played_alice, of utcDate "moveWithoutX 300"]
  show ?thesis
    by (auto simp: played_alice moveWithoutX_def)
qed

section \<open>Daily reset\<close>

lemma dailyTick_reset:
  assumes "resetTime (dailyLeaderboard s) \<le> now"
  shows "dailyLeaderboard (dailyTick D s now) =
           \<lparr>currentDay = toDateString D now, topScores = [], resetTime = nextMidnight D now,
            timeRemaining = 0\<rparr>"
    and "outbox (dailyTick D s now) =
           outbox s @ [(ToAll, DailyLeaderboardReset (toDateString D now) 0), (ToAll, TimeUpdate 0)]"
    and "file_dailyLeaderboard (disk (dailyTick D s now)) =
           Some (toDateString D now, [], nextMidnight D now)"
  using assms
  by (simp_all add: dailyTick_def updateTimeRemaining_def resetDailyLeaderboard_def
      saveDailyLeaderboard_def emit_def Let_def)

text \<open>
  Claim C8, evaluated on the code. The tick at 86400123, past the reset target 86400000,
  clears the entries, sets the day to that of the tick, sets the next midnight as the
  target and persists the emptied board. The reset notification it sends carries the new
  day and the remaining time 0, the value computed before the reset, while the time until
  the new target is 86399877.
\<close>

theorem daily_reset_notification:
  "dailyLeaderboard played =
     \<lparr>currentDay = ''day 0'',
      topScores = [(''Alice'', \<lparr>de_name = ''Alice'', de_score = 1, de_timestamp = 7000\<rparr>)],
      resetTime = 86400000, timeRemaining = 86400000\<rparr> \<and>
   dailyLeaderboard (dailyTick utcDate played 86400123) =
     \<lparr>currentDay = ''day 1'', topScores = [], resetTime = 172800000, timeRemaining = 0\<rparr> \<and>
   file_dailyLeaderboard (disk (dailyTick utcDate played 86400123)) =
     Some (''day 1'', [], 172800000) \<and>
   outbox (dailyTick utcDate played 86400123) =
     outbox played @ [(ToAll, DailyLeaderboardReset ''day 1'' 0), (ToAll, TimeUpdate 0)] \<and>
   resetTime (dailyLeaderboard (dailyTick utcDate played 86400123)) - 86400123 = 86399877"
proof -
  have le: "resetTime (dailyLeaderboard played) \<le> 86400123"
    by (simp add: played_daily)
  have day: "toDateString utcDate 86400123 = ''day 1''" "nextMidnight utcDate 86400123 = 172800000"
    by (simp_all add: utcDate_def decimal.simps)
  from dailyTick_reset [OF le, of utcDate] day played_daily show ?thesis
    by simp
qed

end
